theory Spec2Isabelle
  imports Complex_Main
begin

section \<open>Values, errors and Python arithmetic\<close>

text \<open>
  The image grids of \<^verbatim>\<open>noisemaker/effects.py\<close> are TensorFlow tensors of shape
  \<^verbatim>\<open>[height, width, channels]\<close>. A grid is modelled as a list of rows, a row as a list of
  pixels, a pixel as the list of its channel values. Channel values are modelled by exact
  reals: rounding of 32-bit floats is not part of the model, and where the code divides
  \<open>0 / 0\<close> on floats (a NaN, in \<^verbatim>\<open>normalize\<close> on a constant grid) the
  theorems on values assume the grid is not constant. Index tensors hold integers.

  Every Python exception and every TensorFlow failure is a value \<open>Inl e\<close> of the result.
\<close>

datatype py_error = ValueError | KeyError | ZeroDivisionError | IOError | TFError

type_synonym pixel = "real list"
type_synonym grid = "pixel list list"
type_synonym plane = "real list list"

text \<open>\<^verbatim>\<open>int(x)\<close> and \<^verbatim>\<open>tf.cast(x, tf.int32)\<close> on a float: truncation towards zero.\<close>

definition py_int :: "real \<Rightarrow> int" where
  "py_int x = (if 0 \<le> x then \<lfloor>x\<rfloor> else \<lceil>x\<rceil>)"

text \<open>\<^verbatim>\<open>x % m\<close> on floats, in Python and in TensorFlow (floormod): the sign of the divisor.\<close>

definition floormod :: "real \<Rightarrow> real \<Rightarrow> real" where
  "floormod x m = x - of_int \<lfloor>x / m\<rfloor> * m"

section \<open>Grid utilities\<close>

definition flat :: "grid \<Rightarrow> real list" where
  "flat tensor = concat (concat tensor)"

definition reduce_min :: "real list \<Rightarrow> real" where
  "reduce_min xs = Min (set xs)"

definition reduce_max :: "real list \<Rightarrow> real" where
  "reduce_max xs = Max (set xs)"

text \<open>
  \<^verbatim>\<open>return (tensor - tf.reduce_min(tensor)) / (tf.reduce_max(tensor) - tf.reduce_min(tensor))\<close>
\<close>

definition normalize_tensor :: "grid \<Rightarrow> grid" where
  "normalize_tensor tensor =
     (let lo = reduce_min (flat tensor); hi = reduce_max (flat tensor)
      in map (map (map (\<lambda>v. (v - lo) / (hi - lo)))) tensor)"

text \<open>The same function on a tensor of rank 2 (the result of \<^verbatim>\<open>tf.reduce_sum\<close> over the channels).\<close>

definition normalize_plane :: "plane \<Rightarrow> plane" where
  "normalize_plane p =
     (let lo = reduce_min (concat p); hi = reduce_max (concat p)
      in map (map (\<lambda>v. (v - lo) / (hi - lo))) p)"

text \<open>\<^verbatim>\<open>tensor + c\<close> for a scalar \<open>c\<close> (broadcast over every entry).\<close>

definition add_scalar :: "real \<Rightarrow> grid \<Rightarrow> grid" where
  "add_scalar c tensor = map (map (map (\<lambda>v. v + c))) tensor"

section \<open>Shapes, index tensors and gather\<close>

text \<open>Sequencing of fallible steps: the first failure is the result.\<close>

definition ebind :: "'e + 'a \<Rightarrow> ('a \<Rightarrow> 'e + 'b) \<Rightarrow> 'e + 'b" where
  "ebind m f = (case m of Inl e \<Rightarrow> Inl e | Inr v \<Rightarrow> f v)"

text \<open>A tensor of rank 3 with the given dimensions, and one of rank 2.\<close>

definition is_grid :: "nat \<Rightarrow> nat \<Rightarrow> nat \<Rightarrow> 'a list list list \<Rightarrow> bool" where
  "is_grid h w c tensor =
     (length tensor = h \<and> (\<forall>row \<in> set tensor. length row = w \<and> (\<forall>px \<in> set row. length px = c)))"

definition is_plane :: "nat \<Rightarrow> nat \<Rightarrow> 'a list list \<Rightarrow> bool" where
  "is_plane h w p = (length p = h \<and> (\<forall>row \<in> set p. length row = w))"

definition same_shape :: "'a list list \<Rightarrow> 'b list list \<Rightarrow> bool" where
  "same_shape a b = (map length a = map length b)"

text \<open>
  \<^verbatim>\<open>value_map(tensor, shape)\<close>: the sum over the channel axis, normalized. The shape argument
  only gives the axis (\<^verbatim>\<open>len(shape) - 1\<close>, the last one).
\<close>

definition value_map :: "grid \<Rightarrow> int \<times> int \<times> int \<Rightarrow> plane" where
  "value_map tensor shape = normalize_plane (map (map sum_list) tensor)"

text \<open>\<^verbatim>\<open>value_map(tensor, shape, keep_dims=True)\<close>: the same, as a grid of one channel.\<close>

definition value_map_keep_dims :: "grid \<Rightarrow> int \<times> int \<times> int \<Rightarrow> grid" where
  "value_map_keep_dims tensor shape = normalize_tensor (map (map (\<lambda>px. [sum_list px])) tensor)"

text \<open>
  \<^verbatim>\<open>row_index\<close> and \<^verbatim>\<open>column_index\<close> build an integer tensor \<^verbatim>\<open>[height, width]\<close> from the shape
  alone (their tensor argument is unused): entry \<open>(y, x)\<close> is \<open>x\<close>, respectively \<open>y\<close>.
  TensorFlow refuses a negative dimension.
\<close>

definition row_index :: "int \<times> int \<times> int \<Rightarrow> py_error + int list list" where
  "row_index shape =
     (case shape of (height, width, channels) \<Rightarrow>
        if height < 0 \<or> width < 0 then Inl TFError
        else Inr (replicate (nat height) (map int [0..<nat width])))"

definition column_index :: "int \<times> int \<times> int \<Rightarrow> py_error + int list list" where
  "column_index shape =
     (case shape of (height, width, channels) \<Rightarrow>
        if height < 0 \<or> width < 0 then Inl TFError
        else Inr (map (\<lambda>y. replicate (nat width) (int y)) [0..<nat height]))"

text \<open>\<^verbatim>\<open>tf.stack([a, b], 2)\<close> of two tensors of rank 2; their shapes must agree.\<close>

definition stack2 :: "'a list list \<Rightarrow> 'b list list \<Rightarrow> py_error + ('a \<times> 'b) list list" where
  "stack2 a b = (if same_shape a b then Inr (map2 zip a b) else Inl TFError)"

text \<open>
  Element-wise \<^verbatim>\<open>a + b\<close> of two integer tensors of rank 2. The tensors added in this file are
  meant to have one shape; broadcasting of axes of size 1 is not modelled.
\<close>

definition add_index :: "int list list \<Rightarrow> int list list \<Rightarrow> py_error + int list list" where
  "add_index a b =
     (if same_shape a b then Inr (map2 (map2 (\<lambda>u v. u + v)) a b) else Inl TFError)"

text \<open>
  \<^verbatim>\<open>tf.gather_nd(params, indices)\<close> with \<^verbatim>\<open>indices\<close> of shape \<^verbatim>\<open>[h, w, 2]\<close>: entry \<open>(y, x)\<close> of
  the result is \<^verbatim>\<open>params[i, j]\<close> for the pair \<open>(i, j)\<close> found at \<open>(y, x)\<close>. An index outside
  the tensor (a negative one too) is an error.
\<close>

definition in_bounds :: "'a list list \<Rightarrow> int \<times> int \<Rightarrow> bool" where
  "in_bounds params p =
     (0 \<le> fst p \<and> fst p < int (length params)
      \<and> 0 \<le> snd p \<and> snd p < int (length (params ! nat (fst p))))"

definition gather_nd :: "'a list list \<Rightarrow> (int \<times> int) list list \<Rightarrow> py_error + 'a list list" where
  "gather_nd params indices =
     (if list_all (list_all (in_bounds params)) indices
      then Inr (map (map (\<lambda>p. params ! nat (fst p) ! nat (snd p))) indices)
      else Inl TFError)"

text \<open>
  \<^verbatim>\<open>offset_index(y_index, height, x_index, width)\<close>. The two calls of \<^verbatim>\<open>random.random()\<close> are
  the arguments \<open>r1\<close> and \<open>r2\<close>, in the order of the calls. The integer \<^verbatim>\<open>%\<close> of TensorFlow
  is the floor modulus; it fails on a zero divisor when there is an entry to compute.
\<close>

definition offset_index ::
  "real \<Rightarrow> real \<Rightarrow> int list list \<Rightarrow> int \<Rightarrow> int list list \<Rightarrow> int \<Rightarrow> py_error + (int \<times> int) list list" where
  "offset_index r1 r2 y_index height x_index width =
     (if (height = 0 \<and> concat y_index \<noteq> []) \<or> (width = 0 \<and> concat x_index \<noteq> []) then Inl TFError
      else stack2
        (map (map (\<lambda>y. (y + py_int (real_of_int height * 0.5 + r1 * real_of_int height * 0.5)) mod height)) y_index)
        (map (map (\<lambda>x. (x + py_int (r2 * real_of_int width * 0.5)) mod width)) x_index))"

section \<open>Displacement transforms\<close>

text \<open>
  \<^verbatim>\<open>reindex(tensor, shape, displacement)\<close>:
  \<^verbatim>\<open>offset = tf.cast((reference * displacement * mod + reference) % mod, tf.int32)\<close>, and the
  result gathers the tensor at \<^verbatim>\<open>(offset, offset)\<close>.
\<close>

definition reindex :: "grid \<Rightarrow> int \<times> int \<times> int \<Rightarrow> real \<Rightarrow> py_error + grid" where
  "reindex tensor shape displacement =
     (case shape of (height, width, channels) \<Rightarrow>
        let reference = value_map tensor shape;
            m = min height width;
            offset = map (map (\<lambda>v. py_int (floormod (v * displacement * real_of_int m + v) (real_of_int m)))) reference
        in ebind (stack2 offset offset) (gather_nd tensor))"

text \<open>
  \<^verbatim>\<open>refract(tensor, shape, displacement)\<close>. \<^verbatim>\<open>offset_index\<close> is called twice, so four random
  draws \<open>r1 \<dots> r4\<close> enter, in the order of the calls.
\<close>

definition refract ::
  "real \<Rightarrow> real \<Rightarrow> real \<Rightarrow> real \<Rightarrow> grid \<Rightarrow> int \<times> int \<times> int \<Rightarrow> real \<Rightarrow> py_error + grid" where
  "refract r1 r2 r3 r4 tensor shape displacement =
     (case shape of (height, width, channels) \<Rightarrow>
        let reference_x = map (map (\<lambda>v. v * displacement)) (value_map tensor shape) in
        ebind (row_index shape) (\<lambda>x_index.
        ebind (column_index shape) (\<lambda>y_index.
        ebind (offset_index r1 r2 y_index height x_index width) (\<lambda>index1.
        ebind (gather_nd reference_x index1) (\<lambda>reference_y.
        ebind (add_index y_index (map (map (\<lambda>v. py_int (v * real_of_int height))) reference_y)) (\<lambda>ys.
        ebind (add_index x_index (map (map (\<lambda>v. py_int (v * real_of_int width))) reference_x)) (\<lambda>xs.
        ebind (offset_index r3 r4 ys height xs width) (\<lambda>index2.
        gather_nd tensor index2))))))))"

section \<open>Convolution engine and resampler\<close>

text \<open>
  The members of the enumeration \<^verbatim>\<open>ConvKernel\<close>. The value of \<^verbatim>\<open>rand\<close> is a 5 by 5 matrix drawn
  once, when the module is loaded (\<^verbatim>\<open>np.random.normal(.5, .5, (5, 5)).tolist()\<close>): the draw at
  row \<open>i\<close> and column \<open>j\<close> is the argument of the constructor. Every other value is a list of
  lists of Python integers.
\<close>

datatype ConvKernel =
  emboss | rand "nat \<Rightarrow> nat \<Rightarrow> real" | shadow | edges | sharpen | unsharp_mask | invert | sobel_x | sobel_y

datatype kernel_matrix = IntMatrix "int list list" | FloatMatrix "real list list"

fun kernel_value :: "ConvKernel \<Rightarrow> kernel_matrix" where
  "kernel_value emboss = IntMatrix
     [[ 0,  2,  4],
      [-2,  1,  2],
      [-4, -2,  0]]"
| "kernel_value (rand draw) = FloatMatrix (map (\<lambda>i. map (\<lambda>j. draw i j) [0..<5]) [0..<5])"
| "kernel_value shadow = IntMatrix
     [[ 0,  1,  1,  1, 0],
      [-1, -2,  4,  2, 1],
      [-1, -4,  2,  4, 1],
      [-1, -2, -4,  2, 1],
      [ 0, -1, -1, -1, 0]]"
| "kernel_value edges = IntMatrix
     [[1,   2, 1],
      [2, -12, 2],
      [1,   2, 1]]"
| "kernel_value sharpen = IntMatrix
     [[ 0, -1,  0],
      [-1,  5, -1],
      [ 0, -1,  0]]"
| "kernel_value unsharp_mask = IntMatrix
     [[1,  4,    6,  4, 1],
      [4, 16,   24, 16, 4],
      [6, 24, -476, 24, 6],
      [4, 16,   24, 16, 4],
      [1,  4,    6,  4, 1]]"
| "kernel_value invert = IntMatrix
     [[0,  0, 0],
      [0, -1, 0],
      [0,  0, 0]]"
| "kernel_value sobel_x = IntMatrix
     [[1, 0, -1],
      [2, 0, -2],
      [1, 0, -1]]"
| "kernel_value sobel_y = IntMatrix
     [[ 1,  2,  1],
      [ 0,  0,  0],
      [-1, -2, -1]]"

text \<open>\<^verbatim>\<open>len(kernel)\<close>.\<close>

fun kernel_len :: "kernel_matrix \<Rightarrow> nat" where
  "kernel_len (IntMatrix rows) = length rows"
| "kernel_len (FloatMatrix rows) = length rows"

text \<open>
  \<^verbatim>\<open>_conform_kernel_to_tensor(kernel, tensor, shape)\<close>: \<^verbatim>\<open>np.repeat(kernel, channels)\<close> repeats every
  weight once per channel (it raises on a negative count), the reshape to
  \<^verbatim>\<open>(l, l, channels, 1)\<close> puts the copies of the weight at \<open>(i, j)\<close> in the channel axis (the last
  axis, of size 1, is left out here), and \<^verbatim>\<open>tf.image.convert_image_dtype(temp, tf.float32)\<close>
  scales a tensor of 64-bit integers by \<open>1 / (2^63 - 1)\<close> and only casts a tensor of floats.
\<close>

definition conform_kernel_to_tensor :: "kernel_matrix \<Rightarrow> int \<times> int \<times> int \<Rightarrow> py_error + real list list list" where
  "conform_kernel_to_tensor kernel_rows shape =
     (case shape of (height, width, channels) \<Rightarrow>
        if channels < 0 then Inl ValueError
        else Inr (case kernel_rows of
            IntMatrix rows \<Rightarrow> map (map (\<lambda>v. replicate (nat channels) (real_of_int v * (1 / (2 ^ 63 - 1))))) rows
          | FloatMatrix rows \<Rightarrow> map (map (\<lambda>v. replicate (nat channels) v)) rows))"

text \<open>\<^verbatim>\<open>tf.tile(tensor, [3, 3, 1])\<close>.\<close>

definition tile :: "nat \<Rightarrow> 'a list \<Rightarrow> 'a list" where
  "tile n xs = concat (replicate n xs)"

definition tile3 :: "'a list list \<Rightarrow> 'a list list" where
  "tile3 tensor = tile 3 (map (tile 3) tensor)"

text \<open>
  A slice \<^verbatim>\<open>xs[a:b]\<close>: a negative bound counts from the end, and both bounds are clamped to
  the length. \<^verbatim>\<open>tensor[a:b, c:d]\<close> slices the rows and, in every row, the columns.
\<close>

definition slice_index :: "int \<Rightarrow> nat \<Rightarrow> nat" where
  "slice_index i n = (if i < 0 then nat (max 0 (i + int n)) else min (nat i) n)"

definition py_slice :: "int \<Rightarrow> int \<Rightarrow> 'a list \<Rightarrow> 'a list" where
  "py_slice a b xs =
     (let lo = slice_index a (length xs); hi = slice_index b (length xs)
      in take (hi - lo) (drop lo xs))"

definition crop :: "'a list list \<Rightarrow> int \<Rightarrow> int \<Rightarrow> int \<Rightarrow> int \<Rightarrow> 'a list list" where
  "crop tensor a b c d = map (py_slice c d) (py_slice a b tensor)"

text \<open>
  \<^verbatim>\<open>tf.nn.depthwise_conv2d([tensor], kernel_values, [1,1,1,1], "VALID")[0]\<close>: every channel is
  convolved with its own copy of the kernel, without padding. It fails when the channels
  of the input are not those of the filter, or when the input is smaller than the filter.
\<close>

definition depthwise_conv2d :: "grid \<Rightarrow> real list list list \<Rightarrow> py_error + grid" where
  "depthwise_conv2d input weights =
     (if weights = [] \<or> input = [] then Inl TFError
      else let fh = length weights; fw = length (hd weights); fc = length (hd (hd weights));
               ih = length input; iw = length (hd input)
           in if fw = 0 \<or> ih < fh \<or> iw < fw \<or> \<not> list_all (list_all (\<lambda>px. length px = fc)) input
              then Inl TFError
              else Inr (map (\<lambda>y. map (\<lambda>x. map (\<lambda>c.
                     sum_list (map (\<lambda>i. sum_list (map (\<lambda>j.
                       input ! (y + i) ! (x + j) ! c * weights ! i ! j ! c) [0..<fw])) [0..<fh]))
                   [0..<fc]) [0..<iw - fw + 1]) [0..<ih - fh + 1]))"

text \<open>
  \<^verbatim>\<open>convolve(kernel, tensor, shape)\<close>; the member of \<^verbatim>\<open>ConvKernel\<close> passed as \<^verbatim>\<open>kernel\<close> is
  called \<open>member\<close> here, and the test \<^verbatim>\<open>kernel == ConvKernel.edges\<close> is a case distinction on it.
  \<^verbatim>\<open>tf.cast(shape[0] / 2, tf.int32)\<close> truncates the float quotient.
\<close>

definition convolve :: "ConvKernel \<Rightarrow> grid \<Rightarrow> int \<times> int \<times> int \<Rightarrow> py_error + grid" where
  "convolve member tensor shape =
     (case shape of (height, width, channels) \<Rightarrow>
        ebind (conform_kernel_to_tensor (kernel_value member) shape) (\<lambda>kernel_values.
        let half_height = py_int (real_of_int height / 2);
            half_width = py_int (real_of_int width / 2);
            tiled = tile3 tensor;
            halo = crop tiled half_height (height * 2 + half_height) half_width (width * 2 + half_width)
        in ebind (depthwise_conv2d halo kernel_values) (\<lambda>conv.
           let centre = crop conv half_height (height + half_height) half_width (width + half_width);
               normal = normalize_tensor centre
           in Inr (if (case member of edges \<Rightarrow> True | _ \<Rightarrow> False) then map (map (map (\<lambda>v. \<bar>v - 0.5\<bar> * 2))) normal else normal))))"

text \<open>
  \<^verbatim>\<open>tf.image.resize_images(images, [new_height, new_width], method)\<close> is a function of the
  library: its result has the requested height and width and the channels of the input,
  and it fails on an empty image and on a size that is not positive. The interpolated
  value of each entry is left to the parameter \<open>interp\<close>.
\<close>

datatype ResizeMethod = NEAREST_NEIGHBOR | BILINEAR | BICUBIC

type_synonym interpolation = "ResizeMethod \<Rightarrow> grid \<Rightarrow> nat \<times> nat \<Rightarrow> nat \<Rightarrow> nat \<Rightarrow> nat \<Rightarrow> real"

definition resize_images :: "interpolation \<Rightarrow> grid \<Rightarrow> int \<times> int \<Rightarrow> ResizeMethod \<Rightarrow> py_error + grid" where
  "resize_images interp images new_size method =
     (case new_size of (new_height, new_width) \<Rightarrow>
        if new_height \<le> 0 \<or> new_width \<le> 0 \<or> images = [] \<or> hd images = [] then Inl TFError
        else Inr (map (\<lambda>y. map (\<lambda>x. map (\<lambda>c.
               interp method images (nat new_height, nat new_width) y x c)
             [0..<length (hd (hd images))]) [0..<nat new_width]) [0..<nat new_height]))"

text \<open>The nearest-neighbour interpolation, for concrete runs.\<close>

definition nearest :: interpolation where
  "nearest method images new_size y x c =
     images ! (y * length images div fst new_size) ! (x * length (hd images) div snd new_size) ! c"

text \<open>
  \<^verbatim>\<open>tf.image.convert_image_dtype(tensor, tf.float32, saturate=True)\<close> on a tensor of floats:
  the library returns a float tensor as it is (it casts between float types and clamps
  nothing; \<^verbatim>\<open>saturate\<close> only acts on a conversion to an integer type).
\<close>

definition convert_image_dtype :: "grid \<Rightarrow> grid" where
  "convert_image_dtype tensor = tensor"

text \<open>
  \<^verbatim>\<open>resample(tensor, shape, spline_order)\<close>, where \<^verbatim>\<open>shape\<close> is \<^verbatim>\<open>[height, width]\<close>.
  \<^verbatim>\<open>input_shape\<close> is the shape of the tensor itself.
\<close>

definition resample :: "interpolation \<Rightarrow> grid \<Rightarrow> int \<times> int \<Rightarrow> int \<Rightarrow> py_error + grid" where
  "resample interp tensor shape spline_order =
     (case shape of (height, width) \<Rightarrow>
        let resize_method = (if spline_order = 0 then NEAREST_NEIGHBOR
                             else if spline_order = 1 then BILINEAR else BICUBIC);
            input_height = int (length tensor);
            input_width = int (if tensor = [] then 0 else length (hd tensor));
            half_input_height = py_int (real_of_int input_height / 2);
            half_input_width = py_int (real_of_int input_width / 2);
            half_height = py_int (real_of_int height / 2);
            half_width = py_int (real_of_int width / 2);
            tiled = tile3 tensor;
            halo = crop tiled half_input_height (input_height * 2 + half_input_height)
                     half_input_width (input_width * 2 + half_input_width)
        in ebind (resize_images interp halo (height * 2, width * 2) resize_method) (\<lambda>resized.
           Inr (convert_image_dtype
                  (crop resized half_height (height + half_height) half_width (width + half_width)))))"

section \<open>Worm flow-field simulator\<close>

text \<open>
  The module runs TensorFlow in graph mode: a call of \<^verbatim>\<open>worms\<close> first executes its Python
  statements, which build the graph, and the tensor operations run when the graph is
  evaluated. So the failures of the Python statements (a negative size given to
  \<^verbatim>\<open>tf.random_uniform\<close>, which is refused when the graph is built, the conversion
  \<^verbatim>\<open>WormBehavior(behavior)\<close>, \<^verbatim>\<open>math.sqrt\<close>, and the division in the exposure) come first, in the
  order of the statements, and the failures of a gather or a scatter after them.

  The random tensors are arguments: entry \<open>k\<close> of \<^verbatim>\<open>tf.random_uniform([count])\<close> is
  \<open>uniform_y k\<close> (for \<^verbatim>\<open>worms_y\<close>) or \<open>uniform_x k\<close> (for \<^verbatim>\<open>worms_x\<close>), a number in \<open>[0, 1)\<close>; entry \<open>k\<close>
  of a \<^verbatim>\<open>tf.random_normal([count])\<close> is a standard normal draw, \<open>normal_stride k\<close> for
  \<^verbatim>\<open>worms_stride\<close> (as \<^verbatim>\<open>mean + stddev * draw\<close>) and \<open>normal_rot k\<close> for \<^verbatim>\<open>worms_rot\<close>.
\<close>

datatype WormBehavior = obedient | crosshatch | unruly | chaotic

text \<open>
  What a caller may pass as \<^verbatim>\<open>behavior\<close>: a Python integer, a member of the enumeration, or
  any other object (\<^verbatim>\<open>None\<close>, which is what \<^verbatim>\<open>post_process\<close> passes by default, a float, a
  string).
\<close>

datatype behavior_arg = AsInt int | AsMember WormBehavior | AsOther

text \<open>\<^verbatim>\<open>WormBehavior(n)\<close>: the member whose value is \<open>n\<close>, and \<^verbatim>\<open>ValueError\<close> when there is none.\<close>

definition WormBehavior_of_int :: "int \<Rightarrow> py_error + WormBehavior" where
  "WormBehavior_of_int n =
     (if n = 0 then Inr obedient
      else if n = 1 then Inr crosshatch
      else if n = 2 then Inr unruly
      else if n = 3 then Inr chaotic
      else Inl ValueError)"

text \<open>\<^verbatim>\<open>if isinstance(behavior, int): behavior = WormBehavior(behavior)\<close>\<close>

definition convert_behavior :: "behavior_arg \<Rightarrow> py_error + behavior_arg" where
  "convert_behavior behavior =
     (case behavior of
        AsInt n \<Rightarrow> ebind (WormBehavior_of_int n) (\<lambda>member. Inr (AsMember member))
      | _ \<Rightarrow> Inr behavior)"

record worm_draws =
  uniform_y :: "nat \<Rightarrow> real"
  uniform_x :: "nat \<Rightarrow> real"
  normal_stride :: "nat \<Rightarrow> real"
  normal_rot :: "nat \<Rightarrow> real"

text \<open>
  The heading bias \<^verbatim>\<open>worms_rot\<close> of the agents, by the chain of comparisons of the source;
  its last branch is taken by \<^verbatim>\<open>unruly\<close> and by every object that is no member.
\<close>

definition worms_rot :: "behavior_arg \<Rightarrow> worm_draws \<Rightarrow> nat \<Rightarrow> real list" where
  "worms_rot behavior draws count =
     (if behavior = AsMember obedient then replicate count 0
      else if behavior = AsMember crosshatch
        then map (\<lambda>k. floormod (real_of_int \<lfloor>normal_rot draws k * 100\<rfloor>) 2 * 90) [0..<count]
      else if behavior = AsMember chaotic
        then map (\<lambda>k. normal_rot draws k * 360) [0..<count]
      else map (\<lambda>k. normal_rot draws k) [0..<count])"

text \<open>\<^verbatim>\<open>tf.gather_nd(params, indices)\<close> with \<^verbatim>\<open>indices\<close> of shape \<^verbatim>\<open>[count, 2]\<close>.\<close>

definition gather_points :: "'a list list \<Rightarrow> (int \<times> int) list \<Rightarrow> py_error + 'a list" where
  "gather_points params indices =
     (if list_all (in_bounds params) indices
      then Inr (map (\<lambda>p. params ! nat (fst p) ! nat (snd p)) indices)
      else Inl TFError)"

text \<open>
  \<^verbatim>\<open>tf.scatter_nd(indices, updates, tf.shape(tensor))\<close>: a grid of zeros of the shape of
  \<^verbatim>\<open>tensor\<close>, to which the update \<open>k\<close> is added at the pixel \<^verbatim>\<open>indices[k]\<close>; updates to one
  pixel add up. An index outside the grid is an error.
\<close>

definition add_at :: "grid \<Rightarrow> (int \<times> int) \<times> pixel \<Rightarrow> grid" where
  "add_at acc pu =
     (case pu of (p, u) \<Rightarrow>
        let y = nat (fst p); x = nat (snd p)
        in acc[y := (acc ! y)[x := map2 (\<lambda>a b. a + b) (acc ! y ! x) u]])"

definition scatter_nd :: "(int \<times> int) list \<Rightarrow> pixel list \<Rightarrow> grid \<Rightarrow> py_error + grid" where
  "scatter_nd indices updates tensor =
     (if list_all (in_bounds tensor) indices
      then Inr (foldl add_at (map (map (map (\<lambda>v. 0))) tensor) (zip indices updates))
      else Inl TFError)"

text \<open>Element-wise sum of two grids of one shape (\<^verbatim>\<open>out += ...\<close>).\<close>

definition add_grid :: "grid \<Rightarrow> grid \<Rightarrow> grid" where
  "add_grid a b = map2 (map2 (map2 (\<lambda>u v. u + v))) a b"

text \<open>\<^verbatim>\<open>exposure = 1 - abs(1 - i / (iterations - 1) * 2)\<close>, for \<^verbatim>\<open>iterations\<close> other than 1.\<close>

definition exposure :: "nat \<Rightarrow> int \<Rightarrow> real" where
  "exposure i iterations = 1 - \<bar>1 - real i / real_of_int (iterations - 1) * 2\<bar>"

text \<open>
  The exposures of the iterations \<^verbatim>\<open>for i in range(iterations)\<close>. With \<^verbatim>\<open>iterations = 1\<close> the
  first of them divides the integer 0 by the integer 0, which raises \<^verbatim>\<open>ZeroDivisionError\<close>.
\<close>

definition exposures :: "int \<Rightarrow> py_error + real list" where
  "exposures iterations =
     (if iterations = 1 then Inl ZeroDivisionError
      else Inr (map (\<lambda>i. exposure i iterations) [0..<nat iterations]))"

text \<open>
  The state of the loop: the canvas \<^verbatim>\<open>out\<close> and the positions \<^verbatim>\<open>worms_y\<close>, \<^verbatim>\<open>worms_x\<close>. What
  does not change in the loop is collected in a record.
\<close>

record worm_env =
  env_tensor :: grid
  env_colors :: "pixel list"
  env_index :: plane
  env_rot :: "real list"
  env_stride :: "real list"
  env_height :: int
  env_width :: int

type_synonym worm_state = "grid \<times> real list \<times> real list"

definition worm_step :: "worm_env \<Rightarrow> real \<Rightarrow> worm_state \<Rightarrow> py_error + worm_state" where
  "worm_step env e state =
     (case state of (out, worms_y, worms_x) \<Rightarrow>
        let worm_positions = map (\<lambda>(y, x). (py_int y, py_int x)) (zip worms_y worms_x) in
        ebind (scatter_nd worm_positions (map (map (\<lambda>v. v * e)) (env_colors env)) (env_tensor env)) (\<lambda>scattered.
        ebind (gather_points (env_index env) worm_positions) (\<lambda>gathered.
        let next_position = map2 (\<lambda>a b. a + b) gathered (env_rot env) in
        Inr (add_grid out scattered,
             map2 (\<lambda>y d. floormod (y + d) (real_of_int (env_height env)))
               worms_y (map2 (\<lambda>a s. cos a * s) next_position (env_stride env)),
             map2 (\<lambda>x d. floormod (x + d) (real_of_int (env_width env)))
               worms_x (map2 (\<lambda>a s. sin a * s) next_position (env_stride env))))))"

fun worm_loop :: "worm_env \<Rightarrow> real list \<Rightarrow> worm_state \<Rightarrow> py_error + worm_state" where
  "worm_loop env [] state = Inr state"
| "worm_loop env (e # es) state = ebind (worm_step env e state) (worm_loop env es)"

text \<open>\<^verbatim>\<open>count = int(max(width, height) * density)\<close>\<close>

definition worm_count :: "int \<Rightarrow> int \<Rightarrow> real \<Rightarrow> int" where
  "worm_count width height density = py_int (real_of_int (max width height) * density)"

text \<open>\<^verbatim>\<open>iterations = int(math.sqrt(min(width, height)) * duration)\<close>\<close>

definition iteration_count :: "int \<Rightarrow> int \<Rightarrow> real \<Rightarrow> int" where
  "iteration_count width height duration = py_int (sqrt (real_of_int (min width height)) * duration)"

text \<open>
  \<^verbatim>\<open>worms(tensor, shape, behavior, density, duration, stride, stride_deviation, bg)\<close>.
  \<^verbatim>\<open>math.radians(1)\<close> is \<open>pi / 180\<close>; \<^verbatim>\<open>math.sqrt\<close> raises \<^verbatim>\<open>ValueError\<close> on a negative number.
\<close>

definition worms ::
  "worm_draws \<Rightarrow> grid \<Rightarrow> int \<times> int \<times> int \<Rightarrow> behavior_arg \<Rightarrow> real \<Rightarrow> real \<Rightarrow> real \<Rightarrow> real \<Rightarrow> real
     \<Rightarrow> py_error + grid" where
  "worms draws tensor shape behavior density duration stride stride_deviation bg =
     (case shape of (height, width, channels) \<Rightarrow>
        let count = worm_count width height density in
        if count < 0 then Inl TFError else
        let n = nat count;
            worms_y = map (\<lambda>k. uniform_y draws k * real_of_int height) [0..<n];
            worms_x = map (\<lambda>k. uniform_x draws k * real_of_int width) [0..<n];
            worms_stride = map (\<lambda>k. stride + stride_deviation * normal_stride draws k) [0..<n]
        in
        ebind (convert_behavior behavior) (\<lambda>converted.
        let rot = worms_rot converted draws n;
            index = map (map (\<lambda>v. v * 360 * (pi / 180))) (value_map tensor shape)
        in
        if min width height < 0 then Inl ValueError else
        let iterations = iteration_count width height duration in
        ebind (exposures iterations) (\<lambda>es.
        ebind (gather_points tensor (map (\<lambda>(y, x). (py_int y, py_int x)) (zip worms_y worms_x))) (\<lambda>colors.
        let env = \<lparr>env_tensor = tensor, env_colors = colors, env_index = index, env_rot = rot,
                   env_stride = worms_stride, env_height = height, env_width = width\<rparr>
        in
        ebind (worm_loop env es (map (map (map (\<lambda>v. v * bg))) tensor, worms_y, worms_x)) (\<lambda>final.
        Inr (normalize_tensor (convert_image_dtype (fst final))))))))"

text \<open>Positions that lie in \<open>[0, bound)\<close>.\<close>

definition inside :: "real list \<Rightarrow> int \<Rightarrow> bool" where
  "inside vs bound = (\<forall>v \<in> set vs. 0 \<le> v \<and> v < real_of_int bound)"

section \<open>Color map and derived features\<close>

text \<open>
  The file system and the image decoders are collaborators of \<^verbatim>\<open>color_map\<close>: \<open>open_file\<close> gives
  the bytes of the file at a path or fails (\<^verbatim>\<open>IOError\<close>), and the two decoders give the
  decoded image, with three channels, or fail.
\<close>

record collaborators =
  open_file :: "string \<Rightarrow> py_error + string"
  decode_png :: "string \<Rightarrow> py_error + grid"
  decode_jpeg :: "string \<Rightarrow> py_error + grid"

text \<open>\<^verbatim>\<open>s.endswith(suffix)\<close>\<close>

definition endswith :: "string \<Rightarrow> string \<Rightarrow> bool" where
  "endswith s suffix = (length suffix \<le> length s \<and> drop (length s - length suffix) s = suffix)"

text \<open>The argument \<^verbatim>\<open>clut\<close> of \<^verbatim>\<open>color_map\<close>: a file name or an image tensor.\<close>

datatype clut_arg = ClutName string | ClutTensor grid

text \<open>
  The first statement of \<^verbatim>\<open>color_map\<close>. A file name that ends in neither \<^verbatim>\<open>.png\<close> nor \<^verbatim>\<open>.jpg\<close>
  is opened and stays a string, on which \<^verbatim>\<open>resample\<close> then fails.
\<close>

definition load_clut :: "collaborators \<Rightarrow> clut_arg \<Rightarrow> py_error + grid" where
  "load_clut io clut =
     (case clut of
        ClutTensor t \<Rightarrow> Inr t
      | ClutName name \<Rightarrow>
          ebind (open_file io name) (\<lambda>bytes.
            if endswith name ''.png'' then decode_png io bytes
            else if endswith name ''.jpg'' then decode_jpeg io bytes
            else Inl TFError))"

text \<open>Element-wise \<^verbatim>\<open>t % m\<close> on an integer tensor of rank 2 (the floor modulus).\<close>

definition mod_index :: "int list list \<Rightarrow> int \<Rightarrow> py_error + int list list" where
  "mod_index t m =
     (if m = 0 \<and> concat t \<noteq> [] then Inl TFError else Inr (map (map (\<lambda>v. v mod m)) t))"

text \<open>\<^verbatim>\<open>color_map(tensor, clut, shape, horizontal, displacement)\<close>\<close>

definition color_map ::
  "collaborators \<Rightarrow> interpolation \<Rightarrow> grid \<Rightarrow> clut_arg \<Rightarrow> int \<times> int \<times> int \<Rightarrow> bool \<Rightarrow> real \<Rightarrow> py_error + grid" where
  "color_map io interp tensor clut shape horizontal displacement =
     ebind (load_clut io clut) (\<lambda>clut_tensor.
     case shape of (height, width, channels) \<Rightarrow>
       let reference = map (map (\<lambda>v. v * displacement)) (value_map tensor shape) in
       ebind (row_index shape) (\<lambda>rows.
       ebind (add_index rows (map (map (\<lambda>v. py_int (v * real_of_int (width - 1)))) reference)) (\<lambda>xs.
       ebind (mod_index xs width) (\<lambda>x_index.
       ebind (column_index shape) (\<lambda>columns.
       ebind (if horizontal then Inr columns
              else ebind (add_index columns (map (map (\<lambda>v. py_int (v * real_of_int (height - 1)))) reference))
                     (\<lambda>ys. mod_index ys height)) (\<lambda>y_index.
       ebind (stack2 y_index x_index) (\<lambda>index.
       ebind (resample interp clut_tensor (height, width) 3) (\<lambda>resampled.
       ebind (gather_nd resampled index) (\<lambda>output.
       Inr (convert_image_dtype output))))))))))"

text \<open>
  \<^verbatim>\<open>np.gradient(a, axis=(0, 1))\<close> with unit spacing: the central difference inside, the
  one-sided difference at both ends. It raises \<^verbatim>\<open>ValueError\<close> on an axis of fewer than 2
  entries. Here \<open>f\<close> is the sequence along the axis and \<open>n\<close> its length.
\<close>

definition difference :: "(nat \<Rightarrow> real) \<Rightarrow> nat \<Rightarrow> nat \<Rightarrow> real" where
  "difference f n i =
     (if i = 0 then f 1 - f 0
      else if i = n - 1 then f (n - 1) - f (n - 2)
      else (f (i + 1) - f (i - 1)) / 2)"

text \<open>\<^verbatim>\<open>derivative(tensor)\<close>: \<^verbatim>\<open>normalize(tf.sqrt(y*y + x*x))\<close> of the two gradients.\<close>

definition derivative :: "grid \<Rightarrow> py_error + grid" where
  "derivative tensor =
     (let h = length tensor;
          w = (if tensor = [] then 0 else length (hd tensor));
          c = (if tensor = [] \<or> hd tensor = [] then 0 else length (hd (hd tensor)))
      in if h < 2 \<or> w < 2 then Inl ValueError
         else Inr (normalize_tensor
           (map (\<lambda>y. map (\<lambda>x. map (\<lambda>k.
              let gy = difference (\<lambda>i. tensor ! i ! x ! k) h y;
                  gx = difference (\<lambda>j. tensor ! y ! j ! k) w x
              in sqrt (gy * gy + gx * gx)) [0..<c]) [0..<w]) [0..<h])))"

text \<open>Element-wise combination of two grids of one shape.\<close>

definition zip_grid :: "(real \<Rightarrow> real \<Rightarrow> real) \<Rightarrow> grid \<Rightarrow> grid \<Rightarrow> grid" where
  "zip_grid f a b = map2 (map2 (map2 f)) a b"

text \<open>\<^verbatim>\<open>sobel(tensor, shape)\<close>: \<^verbatim>\<open>tf.abs(normalize(tf.sqrt(x * x + y * y)) * 2 - 1)\<close>\<close>

definition sobel :: "grid \<Rightarrow> int \<times> int \<times> int \<Rightarrow> py_error + grid" where
  "sobel tensor shape =
     ebind (convolve sobel_x tensor shape) (\<lambda>x.
     ebind (convolve sobel_y tensor shape) (\<lambda>y.
     Inr (map (map (map (\<lambda>v. \<bar>v * 2 - 1\<bar>)))
            (normalize_tensor (zip_grid (\<lambda>a b. sqrt (a * a + b * b)) x y)))))"

text \<open>
  \<^verbatim>\<open>normal_map(tensor, shape)\<close>: the three maps \<^verbatim>\<open>x\<close>, \<^verbatim>\<open>y\<close>, \<^verbatim>\<open>z\<close> have one channel each, and the
  result stacks their channel 0 (\<^verbatim>\<open>x[:,:,0]\<close> fails on a map without channels).
\<close>

definition normal_map :: "grid \<Rightarrow> int \<times> int \<times> int \<Rightarrow> py_error + grid" where
  "normal_map tensor shape =
     (case shape of (height, width, channels) \<Rightarrow>
        let reference = value_map_keep_dims tensor shape in
        ebind (convolve sobel_x reference (height, width, 1)) (\<lambda>cx.
        ebind (convolve sobel_y reference (height, width, 1)) (\<lambda>cy.
        let x = normalize_tensor (map (map (map (\<lambda>v. 1 - v))) cx);
            y = normalize_tensor cy;
            z = map (map (map (\<lambda>v. 1 - \<bar>v * 2 - 1\<bar> * 0.5 + 0.5)))
                  (normalize_tensor (zip_grid (\<lambda>a b. sqrt (a * a + b * b)) x y))
        in if list_all (list_all (\<lambda>px. px \<noteq> [])) x \<and> list_all (list_all (\<lambda>px. px \<noteq> [])) y
              \<and> list_all (list_all (\<lambda>px. px \<noteq> [])) z \<and> same_shape x y \<and> same_shape x z
           then Inr (map2 (\<lambda>rx ryz. map2 (\<lambda>px pyz. [hd px, hd (fst pyz), hd (snd pyz)]) rx ryz)
                       x (map2 zip y z))
           else Inl TFError)))"

section \<open>Pipeline orchestrator\<close>

text \<open>
  The keyword arguments of \<^verbatim>\<open>post_process\<close>, with their defaults below. \<^verbatim>\<open>clut\<close> is a file
  name or \<^verbatim>\<open>None\<close>.
\<close>

record options =
  refract_range :: real
  reindex_range :: real
  clut :: "string option"
  clut_horizontal :: bool
  clut_range :: real
  with_worms :: bool
  worm_behavior :: behavior_arg
  worm_density :: real
  worm_duration :: real
  worm_stride :: real
  worm_stride_deviation :: real
  worm_bg :: real
  with_sobel :: bool
  with_normal_map :: bool
  deriv :: bool


text \<open>
  What a call of \<^verbatim>\<open>post_process\<close> draws and reads: the four random numbers of \<^verbatim>\<open>refract\<close>, the
  random tensors of \<^verbatim>\<open>worms\<close>, the interpolation of the library and the collaborators of
  \<^verbatim>\<open>color_map\<close>.
\<close>

record surroundings =
  refract_draws :: "real \<times> real \<times> real \<times> real"
  worms_draws :: worm_draws
  interp_of :: interpolation
  io_of :: collaborators

text \<open>The truth value of \<^verbatim>\<open>clut\<close> in \<^verbatim>\<open>if clut:\<close>: a string that is not empty.\<close>

definition truthy :: "string option \<Rightarrow> bool" where
  "truthy s = (case s of None \<Rightarrow> False | Some name \<Rightarrow> name \<noteq> [])"

text \<open>\<^verbatim>\<open>post_process(tensor, shape, ...)\<close>: the statements of the source, one after the other.\<close>

definition post_process :: "surroundings \<Rightarrow> grid \<Rightarrow> int \<times> int \<times> int \<Rightarrow> options \<Rightarrow> py_error + grid" where
  "post_process env tensor shape opts =
     ebind (if refract_range opts \<noteq> 0
            then (case refract_draws env of (r1, r2, r3, r4) \<Rightarrow>
                    refract r1 r2 r3 r4 tensor shape (refract_range opts))
            else Inr tensor) (\<lambda>t1.
     ebind (if reindex_range opts \<noteq> 0 then reindex t1 shape (reindex_range opts) else Inr t1) (\<lambda>t2.
     ebind (if truthy (clut opts)
            then color_map (io_of env) (interp_of env) t2 (ClutName (the (clut opts))) shape
                   (clut_horizontal opts) (clut_range opts)
            else Inr (normalize_tensor t2)) (\<lambda>t3.
     ebind (if with_worms opts
            then worms (worms_draws env) t3 shape (worm_behavior opts) (worm_density opts)
                   (worm_duration opts) (worm_stride opts) (worm_stride_deviation opts) (worm_bg opts)
            else Inr t3) (\<lambda>t4.
     ebind (if deriv opts then derivative t4 else Inr t4) (\<lambda>t5.
     ebind (if with_sobel opts then sobel t5 shape else Inr t5) (\<lambda>t6.
     if with_normal_map opts then normal_map t6 shape else Inr t6))))))"

text \<open>
  The order of the stages in the words of the specification: the list of the stages that
  a call selects, in the fixed order, and the run of such a list, stage by stage.
\<close>

datatype stage = Refract | Reindex | ColorMap | Normalize | Worms | Derivative | Sobel | NormalMap

definition selected_stages :: "options \<Rightarrow> stage list" where
  "selected_stages opts =
     (if refract_range opts = 0 then [] else [Refract])
     @ (if reindex_range opts = 0 then [] else [Reindex])
     @ [if truthy (clut opts) then ColorMap else Normalize]
     @ (if with_worms opts then [Worms] else [])
     @ (if deriv opts then [Derivative] else [])
     @ (if with_sobel opts then [Sobel] else [])
     @ (if with_normal_map opts then [NormalMap] else [])"

fun run_stage :: "surroundings \<Rightarrow> int \<times> int \<times> int \<Rightarrow> options \<Rightarrow> stage \<Rightarrow> grid \<Rightarrow> py_error + grid" where
  "run_stage env shape opts Refract tensor =
     (case refract_draws env of (r1, r2, r3, r4) \<Rightarrow> refract r1 r2 r3 r4 tensor shape (refract_range opts))"
| "run_stage env shape opts Reindex tensor = reindex tensor shape (reindex_range opts)"
| "run_stage env shape opts ColorMap tensor =
     color_map (io_of env) (interp_of env) tensor (ClutName (the (clut opts))) shape
       (clut_horizontal opts) (clut_range opts)"
| "run_stage env shape opts Normalize tensor = Inr (normalize_tensor tensor)"
| "run_stage env shape opts Worms tensor =
     worms (worms_draws env) tensor shape (worm_behavior opts) (worm_density opts)
       (worm_duration opts) (worm_stride opts) (worm_stride_deviation opts) (worm_bg opts)"
| "run_stage env shape opts Derivative tensor = derivative tensor"
| "run_stage env shape opts Sobel tensor = sobel tensor shape"
| "run_stage env shape opts NormalMap tensor = normal_map tensor shape"

fun run_stages :: "surroundings \<Rightarrow> int \<times> int \<times> int \<Rightarrow> options \<Rightarrow> stage list \<Rightarrow> grid \<Rightarrow> py_error + grid" where
  "run_stages env shape opts [] tensor = Inr tensor"
| "run_stages env shape opts (s # ss) tensor =
     ebind (run_stage env shape opts s tensor) (run_stages env shape opts ss)"

text \<open>The place of a stage in the fixed order; the color map and the plain normalization share one.\<close>

definition stage_rank :: "stage \<Rightarrow> nat" where
  "stage_rank s = (case s of Refract \<Rightarrow> 0 | Reindex \<Rightarrow> 1 | ColorMap \<Rightarrow> 2 | Normalize \<Rightarrow> 2
     | Worms \<Rightarrow> 3 | Derivative \<Rightarrow> 4 | Sobel \<Rightarrow> 5 | NormalMap \<Rightarrow> 6)"


section \<open>Point-distribution generator\<close>

text \<open>
  \<^verbatim>\<open>noisemaker/points.py\<close>. The coordinates are Python floats (or integers, once a point is
  snapped to a pixel), modelled by reals. The calls of \<^verbatim>\<open>random.random()\<close> read a sequence
  \<open>rnd\<close> of numbers, the next one at the index that the functions pass on.
\<close>

datatype PointDistribution =
  random | square | waffle | chess | h_hex | v_hex | spiral | circular | concentric

text \<open>
  What a caller may pass as \<^verbatim>\<open>distrib\<close>: an integer (converted by value), a string (converted
  by name), a member, or any other object.
\<close>

datatype distrib_arg = FromInt int | FromName string | Member PointDistribution | NoMember

definition PointDistribution_of_int :: "int \<Rightarrow> py_error + PointDistribution" where
  "PointDistribution_of_int n =
     (if n = 0 then Inr random else if n = 1 then Inr square else if n = 2 then Inr waffle
      else if n = 3 then Inr chess else if n = 10 then Inr h_hex else if n = 11 then Inr v_hex
      else if n = 50 then Inr spiral else if n = 100 then Inr circular
      else if n = 101 then Inr concentric else Inl ValueError)"

definition PointDistribution_of_name :: "string \<Rightarrow> py_error + PointDistribution" where
  "PointDistribution_of_name s =
     (if s = ''random'' then Inr random else if s = ''square'' then Inr square
      else if s = ''waffle'' then Inr waffle else if s = ''chess'' then Inr chess
      else if s = ''h_hex'' then Inr h_hex else if s = ''v_hex'' then Inr v_hex
      else if s = ''spiral'' then Inr spiral else if s = ''circular'' then Inr circular
      else if s = ''concentric'' then Inr concentric else Inl KeyError)"

text \<open>
  The conversion at the head of \<^verbatim>\<open>point_cloud\<close>; the result is a member, or \<open>None\<close> for an
  object that is none.
\<close>

definition convert_distrib :: "distrib_arg \<Rightarrow> py_error + PointDistribution option" where
  "convert_distrib distrib =
     (case distrib of
        FromInt n \<Rightarrow> ebind (PointDistribution_of_int n) (\<lambda>m. Inr (Some m))
      | FromName s \<Rightarrow> ebind (PointDistribution_of_name s) (\<lambda>m. Inr (Some m))
      | Member m \<Rightarrow> Inr (Some m)
      | NoMember \<Rightarrow> Inr None)"

text \<open>\<^verbatim>\<open>PointDistribution.is_grid\<close> and \<^verbatim>\<open>PointDistribution.is_circular\<close>.\<close>

definition grid_member :: "PointDistribution option \<Rightarrow> bool" where
  "grid_member member = (member \<in> {Some square, Some waffle, Some chess, Some h_hex, Some v_hex})"

definition circular_member :: "PointDistribution option \<Rightarrow> bool" where
  "circular_member member = (member \<in> {Some circular, Some concentric})"

text \<open>
  The keyword arguments that \<^verbatim>\<open>point_cloud\<close> passes to a point function. A point function
  returns its two lists and the index of the next random number, or fails: the float
  \<^verbatim>\<open>%\<close> raises \<^verbatim>\<open>ZeroDivisionError\<close> on a zero divisor.
\<close>

record point_args =
  arg_freq :: int
  arg_distrib :: "PointDistribution option"
  arg_center :: bool
  arg_center_x :: real
  arg_center_y :: real
  arg_range_x :: real
  arg_range_y :: real
  arg_width :: real
  arg_height :: real

type_synonym point_result = "py_error + (real list \<times> real list \<times> nat)"

text \<open>The points of a point function, in the order of its loop, with the test of the divisors.\<close>

definition wrapped :: "point_args \<Rightarrow> (real \<times> real) list \<Rightarrow> nat \<Rightarrow> point_result" where
  "wrapped args points next_index =
     (if points \<noteq> [] \<and> (arg_width args = 0 \<or> arg_height args = 0) then Inl ZeroDivisionError
      else Inr (map (\<lambda>p. floormod (fst p) (arg_width args)) points,
                map (\<lambda>p. floormod (snd p) (arg_height args)) points, next_index))"

text \<open>\<^verbatim>\<open>rand\<close>: two random numbers for every point.\<close>

definition rand_points :: "(nat \<Rightarrow> real) \<Rightarrow> nat \<Rightarrow> point_args \<Rightarrow> point_result" where
  "rand_points rnd index args =
     (let n = nat (arg_freq args * arg_freq args)
      in wrapped args
           (map (\<lambda>i. (arg_center_x args + (rnd (index + 2 * i) * (arg_range_x args * 2) - arg_range_x args),
                      arg_center_y args + (rnd (index + 2 * i + 1) * (arg_range_y args * 2) - arg_range_y args)))
              [0..<n])
           (index + 2 * n))"

text \<open>\<^verbatim>\<open>square_grid\<close>; its first statement divides by \<^verbatim>\<open>freq\<close>.\<close>

definition square_grid :: "nat \<Rightarrow> point_args \<Rightarrow> point_result" where
  "square_grid index args =
     (if arg_freq args = 0 then Inl ZeroDivisionError else
      let freq = arg_freq args;
          distrib = arg_distrib args;
          drift_amount = 0.5 / real_of_int freq;
          drift = (if (freq * freq) mod 2 = 0
                   then (if arg_center args then 0 else drift_amount)
                   else (if arg_center args then drift_amount else 0))
      in wrapped args
           (concat (map (\<lambda>a. concat (map (\<lambda>b.
              if distrib = Some waffle \<and> b mod 2 = 0 \<and> a mod 2 = 0 then []
              else if distrib = Some chess \<and> a mod 2 = b mod 2 then []
              else
                let x_drift = (if distrib = Some h_hex then (if b mod 2 = 1 then drift_amount else 0) else 0);
                    y_drift = (if distrib = Some v_hex then (if a mod 2 = 1 then 0 else drift_amount) else 0)
                in [(arg_center_x args + (real a / real_of_int freq + drift + x_drift) * arg_range_x args * 2,
                     arg_center_y args + (real b / real_of_int freq + drift + y_drift) * arg_range_y args * 2)])
              [0..<nat freq])) [0..<nat freq]))
           index)"

text \<open>\<^verbatim>\<open>spiral\<close>: one random number, the kink.\<close>

definition spiral_points :: "(nat \<Rightarrow> real) \<Rightarrow> nat \<Rightarrow> point_args \<Rightarrow> point_result" where
  "spiral_points rnd index args =
     (let kink = rnd index * 100 - 50;
          n = nat (arg_freq args * arg_freq args)
      in wrapped args
           (map (\<lambda>i.
              let fract = real i / real n;
                  degrees = fract * 360 * (pi / 180) * kink
              in (arg_center_x args + sin degrees * fract * arg_range_x args,
                  arg_center_y args + cos degrees * fract * arg_range_y args))
              [0..<n])
           (index + 1))"

text \<open>
  \<^verbatim>\<open>circular\<close>: the center as it is, then the dots of the rings, wrapped. The rotation
  divides by \<^verbatim>\<open>freq\<close>.
\<close>

definition circular_points :: "nat \<Rightarrow> point_args \<Rightarrow> point_result" where
  "circular_points index args =
     (if arg_freq args = 0 then Inl ZeroDivisionError else
      let n = nat (arg_freq args);
          rotation = 1 / real_of_int (arg_freq args) * 360 * (pi / 180)
      in ebind (wrapped args
           (concat (map (\<lambda>i. map (\<lambda>j.
              let dist_fract = real i / real_of_int (arg_freq args);
                  rads = real j * rotation
                         + (if arg_distrib args = Some circular then rotation * 0.5 * real i else 0)
              in (arg_center_x args + sin rads * dist_fract * arg_range_x args,
                  arg_center_y args + cos rads * dist_fract * arg_range_y args))
              [1..<n + 1]) [1..<n + 1]))
           index) (\<lambda>(xs, ys, next_index).
         Inr (arg_center_x args # xs, arg_center_y args # ys, next_index)))"

text \<open>The choice of \<^verbatim>\<open>point_func\<close>.\<close>

definition point_func :: "(nat \<Rightarrow> real) \<Rightarrow> nat \<Rightarrow> point_args \<Rightarrow> point_result" where
  "point_func rnd index args =
     (if grid_member (arg_distrib args) then square_grid index args
      else if arg_distrib args = Some spiral then spiral_points rnd index args
      else if circular_member (arg_distrib args) then circular_points index args
      else rand_points rnd index args)"

text \<open>
  The members of the set \<^verbatim>\<open>seen\<close>: the pairs of the points already produced, and the
  triple that \<^verbatim>\<open>seen.update(active_set)\<close> puts there at the start. A pair is never equal
  to a triple.
\<close>

datatype seen_item = Pair2 real real | Triple3 real real int

text \<open>
  The state of the loop of \<^verbatim>\<open>point_cloud\<close>. The set \<^verbatim>\<open>active_set\<close> is a list without
  repetition; \<^verbatim>\<open>active_set.pop()\<close> removes one member, which one is not fixed: the argument
  \<open>pick\<close> of the loop chooses its position.
\<close>

record frontier =
  active_set :: "(real \<times> real \<times> int) list"
  seen :: "seen_item list"
  out_x :: "real list"
  out_y :: "real list"
  next_random :: nat

text \<open>The body of \<^verbatim>\<open>for i in range(len(_x))\<close>, for one new point.\<close>

definition visit :: "bool \<Rightarrow> int \<Rightarrow> frontier \<Rightarrow> real \<times> real \<Rightarrow> frontier" where
  "visit snap generation st p =
     (if snap then
        let x_point = real_of_int (py_int (fst p)); y_point = real_of_int (py_int (snd p))
        in if Pair2 x_point y_point \<in> set (seen st) then st
           else st\<lparr>seen := Pair2 x_point y_point # seen st,
                   active_set := List.insert (x_point, y_point, generation + 1) (active_set st),
                   out_x := out_x st @ [x_point], out_y := out_y st @ [y_point]\<rparr>
      else st\<lparr>active_set := List.insert (fst p, snd p, generation + 1) (active_set st),
              out_x := out_x st @ [fst p], out_y := out_y st @ [snd p]\<rparr>)"

record cloud_config =
  cfg_freq :: int
  cfg_distrib :: "PointDistribution option"
  cfg_center :: bool
  cfg_snap :: bool
  cfg_width :: real
  cfg_height :: real
  cfg_generations :: int

datatype cloud = NoCloud | Cloud "real list" "real list"

text \<open>\<^verbatim>\<open>while active_set:\<close>. The value \<open>None\<close> stands for a loop that does not end.\<close>

partial_function (option) point_loop ::
  "((real \<times> real \<times> int) list \<Rightarrow> nat) \<Rightarrow> (nat \<Rightarrow> real) \<Rightarrow> cloud_config \<Rightarrow> frontier \<Rightarrow> (py_error + cloud) option" where
  "point_loop pick rnd cfg st =
     (if active_set st = [] then Some (Inr (Cloud (out_x st) (out_y st)))
      else
        let popped = active_set st ! (pick (active_set st) mod length (active_set st));
            rest = remove1 popped (active_set st)
        in case popped of (x_point, y_point, generation) \<Rightarrow>
           if generation \<le> cfg_generations cfg then
             let multiplier = max (2 * (generation - 1)) 1 in
             (case point_func rnd (next_random st)
                     \<lparr>arg_freq = cfg_freq cfg, arg_distrib = cfg_distrib cfg, arg_center = cfg_center cfg,
                      arg_center_x = x_point, arg_center_y = y_point,
                      arg_range_x = cfg_width cfg * 0.5 / real_of_int multiplier,
                      arg_range_y = cfg_height cfg * 0.5 / real_of_int multiplier,
                      arg_width = cfg_width cfg, arg_height = cfg_height cfg\<rparr> of
                Inl e \<Rightarrow> Some (Inl e)
              | Inr (new_x, new_y, index) \<Rightarrow>
                  point_loop pick rnd cfg
                    (foldl (visit (cfg_snap cfg) generation)
                       (st\<lparr>active_set := rest, next_random := index\<rparr>) (zip new_x new_y)))
           else point_loop pick rnd cfg (st\<lparr>active_set := rest\<rparr>))"

text \<open>
  \<^verbatim>\<open>point_cloud(freq, distrib, shape, center, generations)\<close>, with \<^verbatim>\<open>shape\<close> given as
  \<^verbatim>\<open>(shape[0], shape[1])\<close> or \<open>None\<close>. A \<^verbatim>\<open>freq\<close> of 0 returns at once, without a cloud.
\<close>

definition point_cloud ::
  "((real \<times> real \<times> int) list \<Rightarrow> nat) \<Rightarrow> (nat \<Rightarrow> real) \<Rightarrow> int \<Rightarrow> distrib_arg \<Rightarrow> (int \<times> int) option \<Rightarrow> bool \<Rightarrow> int
     \<Rightarrow> (py_error + cloud) option" where
  "point_cloud pick rnd freq distrib shape center generations =
     (if freq = 0 then Some (Inr NoCloud)
      else
        let width = (case shape of None \<Rightarrow> 1 | Some s \<Rightarrow> real_of_int (snd s));
            height = (case shape of None \<Rightarrow> 1 | Some s \<Rightarrow> real_of_int (fst s));
            range_x = width * 0.5;
            range_y = height * 0.5
        in case convert_distrib distrib of
             Inl e \<Rightarrow> Some (Inl e)
           | Inr member \<Rightarrow>
               let start = (if grid_member member then (0, 0, 1) else (range_x, range_y, 1))
               in point_loop pick rnd
                    \<lparr>cfg_freq = freq, cfg_distrib = member, cfg_center = center, cfg_snap = (shape \<noteq> None),
                     cfg_width = width, cfg_height = height, cfg_generations = generations\<rparr>
                    \<lparr>active_set = [start],
                     seen = [Triple3 (fst start) (fst (snd start)) (snd (snd start))],
                     out_x = [], out_y = [], next_random = 0\<rparr>)"

text \<open>The points of a cloud, as pairs \<open>(x, y)\<close>.\<close>

fun cloud_points :: "cloud \<Rightarrow> (real \<times> real) list" where
  "cloud_points NoCloud = []"
| "cloud_points (Cloud xs ys) = zip xs ys"

section \<open>Properties\<close>

lemma flat_map3: "flat (map (map (map f)) g) = map f (flat g)"
  by (simp add: flat_def map_concat)

lemma Min_shift:
  fixes xs :: "real list"
  assumes "xs \<noteq> []"
  shows "Min ((\<lambda>v. v + c) ` set xs) = Min (set xs) + c"
  using assms by (intro mono_Min_commute [symmetric]) (auto simp: mono_def)

lemma Max_shift:
  fixes xs :: "real list"
  assumes "xs \<noteq> []"
  shows "Max ((\<lambda>v. v + c) ` set xs) = Max (set xs) + c"
  using assms by (intro mono_Max_commute [symmetric]) (auto simp: mono_def)

lemma normalize_entry_range:
  fixes xs :: "real list"
  assumes "x \<in> set xs" and "Min (set xs) \<noteq> Max (set xs)"
  shows "0 \<le> (x - Min (set xs)) / (Max (set xs) - Min (set xs))"
    and "(x - Min (set xs)) / (Max (set xs) - Min (set xs)) \<le> 1"
proof -
  have lo: "Min (set xs) \<le> x" and hi: "x \<le> Max (set xs)"
    using assms(1) by simp_all
  then have "Min (set xs) < Max (set xs)"
    using assms(2) by linarith
  then show "0 \<le> (x - Min (set xs)) / (Max (set xs) - Min (set xs))"
    and "(x - Min (set xs)) / (Max (set xs) - Min (set xs)) \<le> 1"
    using lo hi by (simp_all add: divide_simps)
qed

text \<open>
  C4. For a grid whose minimum and maximum differ, every entry of the normalized grid lies
  in \<open>[0, 1]\<close>, and adding one constant to every entry of the input does not change the
  normalized grid.
\<close>

theorem normalize_range_and_shift:
  assumes "reduce_min (flat tensor) \<noteq> reduce_max (flat tensor)"
  shows "(\<forall>v \<in> set (flat (normalize_tensor tensor)). 0 \<le> v \<and> v \<le> 1)
       \<and> normalize_tensor (add_scalar c tensor) = normalize_tensor tensor"
proof
  show "\<forall>v \<in> set (flat (normalize_tensor tensor)). 0 \<le> v \<and> v \<le> 1"
    using assms normalize_entry_range [of _ "flat tensor"]
    by (auto simp: normalize_tensor_def Let_def flat_map3 reduce_min_def reduce_max_def)
next
  show "normalize_tensor (add_scalar c tensor) = normalize_tensor tensor"
  proof (cases "flat tensor = []")
    case True
    then have "\<And>row px v. row \<in> set tensor \<Longrightarrow> px \<in> set row \<Longrightarrow> v \<in> set px \<Longrightarrow> False"
      by (force simp: flat_def)
    then show ?thesis
      by (auto simp: normalize_tensor_def add_scalar_def Let_def)
  next
    case False
    then show ?thesis
      by (simp add: normalize_tensor_def add_scalar_def Let_def flat_map3
          reduce_min_def reduce_max_def Min_shift Max_shift o_def)
  qed
qed

theorem normalize_range_and_shift_witness:
  "reduce_min (flat [[[1, 3], [2, 5]]]) \<noteq> reduce_max (flat [[[1, 3], [2, 5]]])
   \<and> list_all (\<lambda>v. 0 \<le> v \<and> v \<le> 1) (flat (normalize_tensor [[[1, 3], [2, 5]]]))
   \<and> normalize_tensor (add_scalar 7 [[[1, 3], [2, 5]]]) = normalize_tensor [[[1, 3], [2, 5]]]"
proof -
  have h: "reduce_min (flat [[[1, 3], [2, 5]]]) \<noteq> reduce_max (flat [[[1, 3], [2, 5]]])"
    by (simp add: reduce_min_def reduce_max_def flat_def)
  show ?thesis
    using h normalize_range_and_shift [OF h, of 7] by (simp only: list_all_iff) blast
qed

subsection \<open>Sequencing, planes and index tensors\<close>

lemma ebind_simps [simp]: "ebind (Inr v) f = f v" "ebind (Inl e) f = Inl e"
  by (simp_all add: ebind_def)

lemma is_plane_nth: "is_plane h w p \<Longrightarrow> y < h \<Longrightarrow> length (p ! y) = w"
  by (simp add: is_plane_def)

lemma is_plane_length: "is_plane h w p \<Longrightarrow> length p = h"
  by (simp add: is_plane_def)

lemma is_plane_same_shape: "is_plane h w a \<Longrightarrow> is_plane h w b \<Longrightarrow> same_shape a b"
  by (simp add: is_plane_def same_shape_def list_eq_iff_nth_eq)

lemma is_plane_map [simp]: "is_plane h w (map (map f) p) = is_plane h w p"
  by (auto simp: is_plane_def)

lemma nth_map_map: "y < length p \<Longrightarrow> x < length (p ! y) \<Longrightarrow> map (map f) p ! y ! x = f (p ! y ! x)"
  by simp

lemma plane_all_nth:
  "is_plane h w p \<Longrightarrow> list_all (list_all P) p \<longleftrightarrow> (\<forall>y<h. \<forall>x<w. P (p ! y ! x))"
  by (auto simp: is_plane_def list_all_length)

lemma is_plane_zip: "is_plane h w a \<Longrightarrow> is_plane h w b \<Longrightarrow> is_plane h w (map2 zip a b)"
  by (auto simp: is_plane_def in_set_zip)

lemma nth_zip_plane:
  "is_plane h w a \<Longrightarrow> is_plane h w b \<Longrightarrow> y < h \<Longrightarrow> x < w \<Longrightarrow> map2 zip a b ! y ! x = (a ! y ! x, b ! y ! x)"
  by (simp add: is_plane_def)

lemma is_plane_map2:
  "is_plane h w a \<Longrightarrow> is_plane h w b \<Longrightarrow> is_plane h w (map2 (map2 f) a b)"
  by (auto simp: is_plane_def in_set_zip)

lemma nth_map2_plane:
  "is_plane h w a \<Longrightarrow> is_plane h w b \<Longrightarrow> y < h \<Longrightarrow> x < w \<Longrightarrow>
   map2 (map2 f) a b ! y ! x = f (a ! y ! x) (b ! y ! x)"
  by (simp add: is_plane_def)

lemma row_index_plane:
  "0 \<le> height \<Longrightarrow> 0 \<le> width \<Longrightarrow>
   \<exists>xi. row_index (height, width, ch) = Inr xi \<and> is_plane (nat height) (nat width) xi
     \<and> (\<forall>y<nat height. \<forall>x<nat width. xi ! y ! x = int x)"
  by (simp add: row_index_def is_plane_def)

lemma column_index_plane:
  "0 \<le> height \<Longrightarrow> 0 \<le> width \<Longrightarrow>
   \<exists>yi. column_index (height, width, ch) = Inr yi \<and> is_plane (nat height) (nat width) yi
     \<and> (\<forall>y<nat height. \<forall>x<nat width. yi ! y ! x = int y)"
  by (auto simp: column_index_def is_plane_def)

lemma is_grid_plane: "is_grid h w c t \<Longrightarrow> is_plane h w t"
  by (simp add: is_grid_def is_plane_def)

lemma is_plane_value_map: "is_grid h w c t \<Longrightarrow> is_plane h w (value_map t s)"
  by (simp add: value_map_def normalize_plane_def Let_def is_grid_plane)

lemma gather_nd_plane:
  assumes "is_plane h w idx" and "\<forall>y<h. \<forall>x<w. in_bounds params (idx ! y ! x)"
  shows "gather_nd params idx = Inr (map (map (\<lambda>p. params ! nat (fst p) ! nat (snd p))) idx)"
  using assms by (simp add: gather_nd_def plane_all_nth)

lemma offset_index_plane:
  assumes "is_plane h w yi" and "is_plane h w xi" and "0 < height" and "0 < width"
  shows "\<exists>idx. offset_index r1 r2 yi height xi width = Inr idx \<and> is_plane h w idx
     \<and> (\<forall>y<h. \<forall>x<w. idx ! y ! x =
           ((yi ! y ! x + py_int (real_of_int height * 0.5 + r1 * real_of_int height * 0.5)) mod height,
            (xi ! y ! x + py_int (r2 * real_of_int width * 0.5)) mod width))"
  using assms
  by (simp add: offset_index_def stack2_def is_plane_same_shape is_plane_zip nth_zip_plane
      is_plane_length is_plane_nth)

lemma offset_index_stack:
  "0 < height \<Longrightarrow> 0 < width \<Longrightarrow>
   offset_index r1 r2 yi height xi width =
     stack2 (map (map (\<lambda>y. (y + py_int (real_of_int height * 0.5 + r1 * real_of_int height * 0.5)) mod height)) yi)
            (map (map (\<lambda>x. (x + py_int (r2 * real_of_int width * 0.5)) mod width)) xi)"
  by (simp add: offset_index_def)

lemma stack2_entries:
  assumes "stack2 A B = Inr idx" and "row \<in> set idx" and "p \<in> set row"
  shows "\<exists>ra \<in> set A. \<exists>rb \<in> set B. fst p \<in> set ra \<and> snd p \<in> set rb"
proof -
  have idx: "idx = map2 zip A B"
    using assms(1) by (simp add: stack2_def split: if_splits)
  from assms(2) obtain ra rb where q: "(ra, rb) \<in> set (zip A B)" "row = zip ra rb"
    unfolding idx by auto
  have "ra \<in> set A" "rb \<in> set B"
    using q(1) by (rule set_zip_leftD, rule set_zip_rightD)
  moreover have "fst p \<in> set ra" "snd p \<in> set rb"
    using assms(3) unfolding q(2)
    by (metis prod.collapse set_zip_leftD, metis prod.collapse set_zip_rightD)
  ultimately show ?thesis by blast
qed


lemma offset_index_entries:
  assumes "offset_index r1 r2 yi height xi width = Inr idx" and "0 < height" and "0 < width"
    and "row \<in> set idx" and "p \<in> set row"
  shows "0 \<le> fst p \<and> fst p < height \<and> 0 \<le> snd p \<and> snd p < width"
proof -
  from stack2_entries [OF assms(1) [unfolded offset_index_stack [OF assms(2,3)]] assms(4,5)]
  obtain ra rb y x where "fst p = (y + py_int (real_of_int height * 0.5 + r1 * real_of_int height * 0.5)) mod height"
      "snd p = (x + py_int (r2 * real_of_int width * 0.5)) mod width"
    by auto
  with assms(2,3) show ?thesis
    by simp
qed

subsection \<open>The displacement transforms, entry by entry\<close>

lemma in_bounds_mod:
  assumes "length params = nat height" and "\<forall>row \<in> set params. length row = nat width"
    and "0 < height" and "0 < width"
  shows "in_bounds params (a mod height, b mod width)"
proof -
  have "nat (a mod height) < length params"
    using assms(1,3) by (simp add: nat_less_iff)
  then have "length (params ! nat (a mod height)) = nat width"
    using assms(2) by simp
  then show ?thesis
    using assms(1,3,4) by (simp add: in_bounds_def)
qed

lemma add_index_plane:
  assumes "is_plane h w a" and "is_plane h w b"
  shows "add_index a b = Inr (map2 (map2 (\<lambda>u v. u + v)) a b)"
  using assms by (simp add: add_index_def is_plane_same_shape)

text \<open>The result of \<^verbatim>\<open>refract\<close> on a grid of the shape it is given, entry by entry.\<close>

lemma refract_entries:
  fixes tensor :: grid and height width channels :: int and d ra rb rc rd :: real
  assumes g: "is_grid (nat height) (nat width) c tensor" and h: "0 < height" and w: "0 < width"
  defines "rx \<equiv> map (map (\<lambda>v. v * d)) (value_map tensor (height, width, channels))"
  defines "k1 \<equiv> py_int (real_of_int height * 0.5 + ra * real_of_int height * 0.5)"
  defines "k2 \<equiv> py_int (rb * real_of_int width * 0.5)"
  defines "k3 \<equiv> py_int (real_of_int height * 0.5 + rc * real_of_int height * 0.5)"
  defines "k4 \<equiv> py_int (rd * real_of_int width * 0.5)"
  shows "\<exists>out. refract ra rb rc rd tensor (height, width, channels) d = Inr out
     \<and> is_plane (nat height) (nat width) out
     \<and> (\<forall>y<nat height. \<forall>x<nat width. out ! y ! x =
          tensor ! nat ((int y + py_int (rx ! nat ((int y + k1) mod height) ! nat ((int x + k2) mod width) * real_of_int height) + k3) mod height)
                 ! nat ((int x + py_int (rx ! y ! x * real_of_int width) + k4) mod width))"
proof -
  let ?h = "nat height" and ?w = "nat width"
  have tp: "is_plane ?h ?w tensor"
    using g by (rule is_grid_plane)
  have rxp: "is_plane ?h ?w rx"
    using is_plane_value_map [OF g] by (simp add: rx_def)
  obtain xi where xi: "row_index (height, width, channels) = Inr xi" "is_plane ?h ?w xi"
      "\<forall>y<?h. \<forall>x<?w. xi ! y ! x = int x"
    using row_index_plane [of height width channels] h w by auto
  obtain yi where yi: "column_index (height, width, channels) = Inr yi" "is_plane ?h ?w yi"
      "\<forall>y<?h. \<forall>x<?w. yi ! y ! x = int y"
    using column_index_plane [of height width channels] h w by auto
  obtain i1 where i1: "offset_index ra rb yi height xi width = Inr i1" "is_plane ?h ?w i1"
      "\<forall>y<?h. \<forall>x<?w. i1 ! y ! x = ((yi ! y ! x + k1) mod height, (xi ! y ! x + k2) mod width)"
    using offset_index_plane [OF yi(2) xi(2) h w, of ra rb] unfolding k1_def k2_def by blast
  have b1: "\<forall>y<?h. \<forall>x<?w. in_bounds rx (i1 ! y ! x)"
    using i1(3) in_bounds_mod [of rx height width] rxp h w by (simp add: is_plane_def)
  define ry where "ry = map (map (\<lambda>p. rx ! nat (fst p) ! nat (snd p))) i1"
  have g1: "gather_nd rx i1 = Inr ry"
    unfolding ry_def using i1(2) b1 by (rule gather_nd_plane)
  have ryp: "is_plane ?h ?w ry"
    using i1(2) by (simp add: ry_def)
  have rye: "\<forall>y<?h. \<forall>x<?w. ry ! y ! x = rx ! nat ((int y + k1) mod height) ! nat ((int x + k2) mod width)"
    using i1(2,3) yi(3) xi(3) by (simp add: ry_def is_plane_def)
  define ys where "ys = map2 (map2 (\<lambda>u v. u + v)) yi (map (map (\<lambda>v. py_int (v * real_of_int height))) ry)"
  define xs where "xs = map2 (map2 (\<lambda>u v. u + v)) xi (map (map (\<lambda>v. py_int (v * real_of_int width))) rx)"
  have a1: "add_index yi (map (map (\<lambda>v. py_int (v * real_of_int height))) ry) = Inr ys"
    unfolding ys_def using yi(2) ryp by (intro add_index_plane [of ?h ?w]) simp_all
  have a2: "add_index xi (map (map (\<lambda>v. py_int (v * real_of_int width))) rx) = Inr xs"
    unfolding xs_def using xi(2) rxp by (intro add_index_plane [of ?h ?w]) simp_all
  have ysp: "is_plane ?h ?w ys"
    unfolding ys_def using yi(2) ryp by (intro is_plane_map2) simp_all
  have xsp: "is_plane ?h ?w xs"
    unfolding xs_def using xi(2) rxp by (intro is_plane_map2) simp_all
  have yse: "\<forall>y<?h. \<forall>x<?w. ys ! y ! x = int y + py_int (ry ! y ! x * real_of_int height)"
    using yi ryp by (simp add: ys_def nth_map2_plane [of ?h ?w] is_plane_def)
  have xse: "\<forall>y<?h. \<forall>x<?w. xs ! y ! x = int x + py_int (rx ! y ! x * real_of_int width)"
    using xi rxp by (simp add: xs_def nth_map2_plane [of ?h ?w] is_plane_def)
  obtain i2 where i2: "offset_index rc rd ys height xs width = Inr i2" "is_plane ?h ?w i2"
      "\<forall>y<?h. \<forall>x<?w. i2 ! y ! x = ((ys ! y ! x + k3) mod height, (xs ! y ! x + k4) mod width)"
    using offset_index_plane [OF ysp xsp h w, of rc rd] unfolding k3_def k4_def by blast
  have b2: "\<forall>y<?h. \<forall>x<?w. in_bounds tensor (i2 ! y ! x)"
    using i2(3) in_bounds_mod [of tensor height width] tp h w by (simp add: is_plane_def)
  define out where "out = map (map (\<lambda>p. tensor ! nat (fst p) ! nat (snd p))) i2"
  have g2: "gather_nd tensor i2 = Inr out"
    unfolding out_def using i2(2) b2 by (rule gather_nd_plane)
  have r: "refract ra rb rc rd tensor (height, width, channels) d = Inr out"
    using xi(1) yi(1) i1(1) g1 a1 a2 i2(1) g2 by (simp add: refract_def rx_def [symmetric])
  have outp: "is_plane ?h ?w out"
    using i2(2) by (simp add: out_def)
  have oute: "\<forall>y<?h. \<forall>x<?w. out ! y ! x =
          tensor ! nat ((int y + py_int (rx ! nat ((int y + k1) mod height) ! nat ((int x + k2) mod width) * real_of_int height) + k3) mod height)
                 ! nat ((int x + py_int (rx ! y ! x * real_of_int width) + k4) mod width)"
    using i2(2,3) yse xse rye by (simp add: out_def is_plane_def)
  from r outp oute show ?thesis by blast
qed


lemma floormod_range:
  assumes "0 < m"
  shows "0 \<le> floormod x m" and "floormod x m < m"
proof -
  have a: "of_int \<lfloor>x / m\<rfloor> \<le> x / m" and b: "x / m < of_int \<lfloor>x / m\<rfloor> + 1"
    by linarith+
  have "of_int \<lfloor>x / m\<rfloor> * m \<le> x"
    using a assms by (simp only: pos_le_divide_eq)
  moreover have "x < (of_int \<lfloor>x / m\<rfloor> + 1) * m"
    using b assms by (simp only: pos_divide_less_eq)
  ultimately show "0 \<le> floormod x m" and "floormod x m < m"
    by (simp_all add: floormod_def algebra_simps)
qed

lemma floormod_small:
  assumes "0 \<le> x" and "x < m"
  shows "floormod x m = x"
proof -
  have "0 \<le> x / m" and "x / m < 1"
    using assms by simp_all
  then have "\<lfloor>x / m\<rfloor> = 0"
    by linarith
  then show ?thesis
    by (simp add: floormod_def)
qed

lemma py_int_floormod_range:
  assumes "0 < m"
  shows "0 \<le> py_int (floormod x (real_of_int m))" and "py_int (floormod x (real_of_int m)) < m"
proof -
  have "0 \<le> floormod x (real_of_int m)" and "floormod x (real_of_int m) < real_of_int m"
    using assms floormod_range [of "real_of_int m" x] by simp_all
  then show "0 \<le> py_int (floormod x (real_of_int m))" and "py_int (floormod x (real_of_int m)) < m"
    by (simp_all add: py_int_def floor_less_iff)
qed

lemma nth_nth_in_concat: "y < length p \<Longrightarrow> x < length (p ! y) \<Longrightarrow> p ! y ! x \<in> set (concat p)"
  by (metis concat_map_singleton nth_mem in_set_conv_nth set_concat UN_I)

lemma value_map_entry:
  assumes "is_grid h w c tensor" and "y < h" and "x < w"
  shows "value_map tensor s ! y ! x =
    (sum_list (tensor ! y ! x) - reduce_min (concat (map (map sum_list) tensor)))
      / (reduce_max (concat (map (map sum_list) tensor)) - reduce_min (concat (map (map sum_list) tensor)))"
  using assms by (simp add: value_map_def normalize_plane_def Let_def is_grid_def)

lemma value_map_range:
  assumes g: "is_grid h w c tensor" and y: "y < h" and x: "x < w"
    and nd: "reduce_min (concat (map (map sum_list) tensor)) \<noteq> reduce_max (concat (map (map sum_list) tensor))"
  shows "0 \<le> value_map tensor s ! y ! x" and "value_map tensor s ! y ! x \<le> 1"
proof -
  have "map (map sum_list) tensor ! y ! x \<in> set (concat (map (map sum_list) tensor))"
    using g y x by (intro nth_nth_in_concat) (simp_all add: is_grid_def)
  then have "sum_list (tensor ! y ! x) \<in> set (concat (map (map sum_list) tensor))"
    using g y x by (simp add: is_grid_def)
  from normalize_entry_range [OF this nd [unfolded reduce_min_def reduce_max_def]]
  show "0 \<le> value_map tensor s ! y ! x" and "value_map tensor s ! y ! x \<le> 1"
    by (simp_all add: value_map_entry [OF g y x] reduce_min_def reduce_max_def)
qed

text \<open>The result of \<^verbatim>\<open>reindex\<close> on a grid of the shape it is given, entry by entry.\<close>

lemma reindex_entries:
  fixes tensor :: grid and height width channels :: int and d :: real
  assumes g: "is_grid (nat height) (nat width) c tensor" and h: "0 < height" and w: "0 < width"
  defines "m \<equiv> min height width"
  defines "vm \<equiv> value_map tensor (height, width, channels)"
  shows "\<exists>out. reindex tensor (height, width, channels) d = Inr out
     \<and> is_plane (nat height) (nat width) out
     \<and> (\<forall>y<nat height. \<forall>x<nat width. out ! y ! x =
          tensor ! nat (py_int (floormod (vm ! y ! x * d * real_of_int m + vm ! y ! x) (real_of_int m)))
                 ! nat (py_int (floormod (vm ! y ! x * d * real_of_int m + vm ! y ! x) (real_of_int m))))"
proof -
  let ?h = "nat height" and ?w = "nat width"
  let ?f = "\<lambda>v. py_int (floormod (v * d * real_of_int m + v) (real_of_int m))"
  have m: "0 < m" "m \<le> height" "m \<le> width"
    using h w by (simp_all add: m_def)
  have vmp: "is_plane ?h ?w vm"
    using is_plane_value_map [OF g] by (simp add: vm_def)
  define offset where "offset = map (map ?f) vm"
  have op: "is_plane ?h ?w offset"
    using vmp by (simp add: offset_def)
  define idx where "idx = map2 zip offset offset"
  have st: "stack2 offset offset = Inr idx"
    by (simp add: stack2_def same_shape_def idx_def)
  have ip: "is_plane ?h ?w idx"
    unfolding idx_def using op op by (rule is_plane_zip)
  have ie: "\<forall>y<?h. \<forall>x<?w. idx ! y ! x = (?f (vm ! y ! x), ?f (vm ! y ! x))"
    using op vmp by (simp add: idx_def nth_zip_plane [of ?h ?w] offset_def is_plane_def)
  have tp: "is_plane ?h ?w tensor"
    using g by (rule is_grid_plane)
  have fr: "0 \<le> ?f v \<and> ?f v < m" for v
    using py_int_floormod_range [OF m(1)] by simp
  have b: "\<forall>y<?h. \<forall>x<?w. in_bounds tensor (idx ! y ! x)"
  proof (intro allI impI)
    fix y x assume yx: "y < ?h" "x < ?w"
    let ?o = "?f (vm ! y ! x)"
    have o: "0 \<le> ?o" "?o < m" using fr by simp_all
    then have "nat ?o < ?h" using m(2) by simp
    then have "length (tensor ! nat ?o) = ?w"
      using tp by (simp add: is_plane_def)
    then show "in_bounds tensor (idx ! y ! x)"
      using ie yx o m tp by (simp add: in_bounds_def is_plane_def)
  qed
  define out where "out = map (map (\<lambda>p. tensor ! nat (fst p) ! nat (snd p))) idx"
  have g2: "gather_nd tensor idx = Inr out"
    unfolding out_def using ip b by (rule gather_nd_plane)
  have r: "reindex tensor (height, width, channels) d = Inr out"
    using st g2 by (simp add: reindex_def Let_def vm_def [symmetric] m_def [symmetric] offset_def [symmetric])
  have outp: "is_plane ?h ?w out"
    using ip by (simp add: out_def)
  have oute: "\<forall>y<?h. \<forall>x<?w. out ! y ! x = tensor ! nat (?f (vm ! y ! x)) ! nat (?f (vm ! y ! x))"
    using ip ie by (simp add: out_def is_plane_def)
  from r outp oute show ?thesis by blast
qed

lemma offset_shift_range:
  fixes r :: real and height :: int
  assumes "0 \<le> r" and "r < 1" and "2 \<le> height"
  shows "0 < py_int (real_of_int height * 0.5 + r * real_of_int height * 0.5)"
    and "py_int (real_of_int height * 0.5 + r * real_of_int height * 0.5) < height"
proof -
  let ?v = "real_of_int height * 0.5 + r * real_of_int height * 0.5"
  have hpos: "0 < real_of_int height" using assms(3) by simp
  have "r * real_of_int height < real_of_int height"
    using assms(2) hpos by simp
  then have up: "?v < real_of_int height" by simp
  have "0 \<le> r * real_of_int height"
    using assms(1) hpos by simp
  then have lo: "1 \<le> ?v" using assms(3) by simp
  then have "py_int ?v = \<lfloor>?v\<rfloor>" by (simp add: py_int_def)
  moreover have "1 \<le> \<lfloor>?v\<rfloor>" using lo by linarith
  moreover have "\<lfloor>?v\<rfloor> < height" using up by (simp add: floor_less_iff)
  ultimately show "0 < py_int ?v" and "py_int ?v < height" by simp_all
qed

lemma py_int_unit:
  assumes "0 \<le> v" and "v \<le> 1"
  shows "py_int v = (if v = 1 then 1 else 0)"
proof (cases "v = 1")
  case True
  then show ?thesis by (simp add: py_int_def)
next
  case False
  then have "v < 1" using assms(2) by simp
  then have "\<lfloor>v\<rfloor> = 0" using assms(1) by linarith
  then show ?thesis using False assms(1) by (simp add: py_int_def)
qed

lemma reindex_offset_zero:
  fixes v :: real and m :: int
  assumes "0 \<le> v" and "v \<le> 1" and "0 < m"
  shows "py_int (floormod (v * 0 * real_of_int m + v) (real_of_int m)) = (if v = 1 \<and> 2 \<le> m then 1 else 0)"
proof (cases "2 \<le> m")
  case True
  then have "v < real_of_int m" using assms(2) by simp
  then have "floormod v (real_of_int m) = v"
    using assms(1) by (rule floormod_small [rotated])
  then show ?thesis using True py_int_unit [OF assms(1,2)] by simp
next
  case False
  then have m1: "m = 1" using assms(3) by simp
  have "0 \<le> floormod v 1" and "floormod v 1 < 1"
    using floormod_range [of 1 v] by simp_all
  then have "\<lfloor>floormod v 1\<rfloor> = 0" by linarith
  then show ?thesis using m1 \<open>0 \<le> floormod v 1\<close> by (simp add: py_int_def)
qed

lemma reindex_zero_entries:
  fixes tensor :: grid and height width channels :: int
  assumes g: "is_grid (nat height) (nat width) c tensor" and h: "0 < height" and w: "0 < width"
    and nd: "reduce_min (concat (map (map sum_list) tensor)) \<noteq> reduce_max (concat (map (map sum_list) tensor))"
  shows "\<exists>out. reindex tensor (height, width, channels) 0 = Inr out
            \<and> is_plane (nat height) (nat width) out
            \<and> (\<forall>y<nat height. \<forall>x<nat width. out ! y ! x =
                  (if value_map tensor (height, width, channels) ! y ! x = 1 \<and> 2 \<le> min height width
                   then tensor ! 1 ! 1 else tensor ! 0 ! 0))"
proof -
  let ?vm = "value_map tensor (height, width, channels)"
  let ?m = "min height width"
  let ?o = "\<lambda>v. py_int (floormod (v * 0 * real_of_int ?m + v) (real_of_int ?m))"
  have m: "0 < ?m" using h w by simp
  obtain out where out: "reindex tensor (height, width, channels) 0 = Inr out"
      "is_plane (nat height) (nat width) out"
      "\<forall>y<nat height. \<forall>x<nat width. out ! y ! x = tensor ! nat (?o (?vm ! y ! x)) ! nat (?o (?vm ! y ! x))"
    using reindex_entries [OF g h w, where channels = channels and d = 0] by blast
  have "out ! y ! x = (if ?vm ! y ! x = 1 \<and> 2 \<le> ?m then tensor ! 1 ! 1 else tensor ! 0 ! 0)"
    if yx: "y < nat height" "x < nat width" for y x
  proof -
    have "0 \<le> ?vm ! y ! x" "?vm ! y ! x \<le> 1"
      using value_map_range [OF g yx nd] by blast+
    from reindex_offset_zero [OF this m]
    have o: "?o (?vm ! y ! x) = (if ?vm ! y ! x = 1 \<and> 2 \<le> ?m then 1 else 0)" .
    have "out ! y ! x = tensor ! nat (?o (?vm ! y ! x)) ! nat (?o (?vm ! y ! x))"
      using out(3) yx by blast
    then show ?thesis
      unfolding o by (simp split: if_splits)
  qed
  with out(1,2) show ?thesis
    by blast
qed

lemma refract_zero_entries:
  fixes tensor :: grid and height width channels :: int and ra rb rc rd :: real
  assumes g: "is_grid (nat height) (nat width) c tensor" and h: "0 < height" and w: "0 < width"
  shows "\<exists>out. refract ra rb rc rd tensor (height, width, channels) 0 = Inr out
            \<and> is_plane (nat height) (nat width) out
            \<and> (\<forall>y<nat height. \<forall>x<nat width. out ! y ! x =
                  tensor ! nat ((int y + py_int (real_of_int height * 0.5 + rc * real_of_int height * 0.5)) mod height)
                         ! nat ((int x + py_int (rd * real_of_int width * 0.5)) mod width))"
proof -
  define rx where "rx = map (map (\<lambda>v. v * 0)) (value_map tensor (height, width, channels))"
  define k1 where "k1 = py_int (real_of_int height * 0.5 + ra * real_of_int height * 0.5)"
  define k2 where "k2 = py_int (rb * real_of_int width * 0.5)"
  define k3 where "k3 = py_int (real_of_int height * 0.5 + rc * real_of_int height * 0.5)"
  define k4 where "k4 = py_int (rd * real_of_int width * 0.5)"
  have rx0: "rx ! a ! b = 0" if "a < nat height" "b < nat width" for a b
    using is_plane_value_map [OF g, of "(height, width, channels)"] that by (simp add: is_plane_def rx_def)
  obtain out where out: "refract ra rb rc rd tensor (height, width, channels) 0 = Inr out"
      "is_plane (nat height) (nat width) out"
      "\<forall>y<nat height. \<forall>x<nat width. out ! y ! x =
          tensor ! nat ((int y + py_int (rx ! nat ((int y + k1) mod height) ! nat ((int x + k2) mod width) * real_of_int height) + k3) mod height)
                 ! nat ((int x + py_int (rx ! y ! x * real_of_int width) + k4) mod width)"
    using refract_entries [OF g h w, where channels = channels and d = 0 and ra = ra and rb = rb and rc = rc and rd = rd]
    unfolding rx_def k1_def k2_def k3_def k4_def by blast
  have "out ! y ! x = tensor ! nat ((int y + k3) mod height) ! nat ((int x + k4) mod width)"
    if yx: "y < nat height" "x < nat width" for y x
  proof -
    have a: "nat ((int y + k1) mod height) < nat height"
      using h by (simp add: nat_less_iff)
    have b: "nat ((int x + k2) mod width) < nat width"
      using w by (simp add: nat_less_iff)
    have z: "py_int (0 * real_of_int height) = 0" "py_int (0 * real_of_int width) = 0"
      by (simp_all add: py_int_def)
    have "out ! y ! x =
          tensor ! nat ((int y + py_int (rx ! nat ((int y + k1) mod height) ! nat ((int x + k2) mod width) * real_of_int height) + k3) mod height)
                 ! nat ((int x + py_int (rx ! y ! x * real_of_int width) + k4) mod width)"
      using out(3) yx by blast
    then show ?thesis
      unfolding rx0 [OF a b] rx0 [OF yx] z by simp
  qed
  with out(1,2) show ?thesis
    unfolding k3_def k4_def by blast
qed

subsection \<open>Displacement zero (C1)\<close>

text \<open>
  C1 (as amended). With \<^verbatim>\<open>displacement=0\<close> neither transform is the identity. On a grid of
  the given shape whose value map is not constant, \<^verbatim>\<open>reindex\<close> returns at every pixel the
  input's pixel at \<open>(o, o)\<close>, where the offset \<open>o\<close> is \<open>1\<close> at the pixels of maximal value
  (when both dimensions are at least 2) and \<open>0\<close> elsewhere; \<^verbatim>\<open>refract\<close> returns the input
  translated with wrap-around by the two offsets that its last call of \<^verbatim>\<open>offset_index\<close> draws,
  and the row offset is never a multiple of the height when the height is at least 2.
\<close>

theorem displacement_zero_result:
  fixes tensor :: grid and height width channels :: int and ra rb rc rd :: real
  assumes g: "is_grid (nat height) (nat width) c tensor" and h: "0 < height" and w: "0 < width"
    and nd: "reduce_min (concat (map (map sum_list) tensor)) \<noteq> reduce_max (concat (map (map sum_list) tensor))"
  shows "(\<exists>out. reindex tensor (height, width, channels) 0 = Inr out
            \<and> is_plane (nat height) (nat width) out
            \<and> (\<forall>y<nat height. \<forall>x<nat width. out ! y ! x =
                  (if value_map tensor (height, width, channels) ! y ! x = 1 \<and> 2 \<le> min height width
                   then tensor ! 1 ! 1 else tensor ! 0 ! 0)))
       \<and> (\<exists>out. refract ra rb rc rd tensor (height, width, channels) 0 = Inr out
            \<and> is_plane (nat height) (nat width) out
            \<and> (\<forall>y<nat height. \<forall>x<nat width. out ! y ! x =
                  tensor ! nat ((int y + py_int (real_of_int height * 0.5 + rc * real_of_int height * 0.5)) mod height)
                         ! nat ((int x + py_int (rd * real_of_int width * 0.5)) mod width)))
       \<and> (0 \<le> rc \<and> rc < 1 \<and> 2 \<le> height \<longrightarrow>
            0 < py_int (real_of_int height * 0.5 + rc * real_of_int height * 0.5)
            \<and> py_int (real_of_int height * 0.5 + rc * real_of_int height * 0.5) < height)"
  using reindex_zero_entries [OF g h w nd, where channels = channels]
    refract_zero_entries [OF g h w, where channels = channels and ra = ra and rb = rb and rc = rc and rd = rd]
    offset_shift_range [of rc height]
  by blast

theorem displacement_zero_result_witness:
  "is_grid (nat 2) (nat 2) 1 [[[0], [1]], [[2], [3::real]]]
   \<and> reduce_min (concat (map (map sum_list) [[[0], [1]], [[2], [3::real]]]))
       \<noteq> reduce_max (concat (map (map sum_list) [[[0], [1]], [[2], [3::real]]]))
   \<and> (\<exists>out. reindex [[[0], [1]], [[2], [3]]] (2, 2, 1) 0 = Inr out
         \<and> out ! 0 ! 1 = [0] \<and> out ! 1 ! 1 = [3])
   \<and> (\<exists>out. refract (1 / 2) (1 / 3) (1 / 4) (1 / 5) [[[0], [1]], [[2], [3]]] (2, 2, 1) 0 = Inr out
         \<and> out ! 0 ! 0 = [2] \<and> out ! 1 ! 1 = [1])"
proof -
  let ?G = "[[[0], [1]], [[2], [3::real]]]"
  have g: "is_grid (nat 2) (nat 2) 1 ?G"
    by (simp add: is_grid_def)
  have nd: "reduce_min (concat (map (map sum_list) ?G)) \<noteq> reduce_max (concat (map (map sum_list) ?G))"
    by (simp add: reduce_min_def reduce_max_def)
  have vm: "value_map ?G (2, 2, 1) = [[0, 1 / 3], [2 / 3, 1]]"
    by (simp add: value_map_def normalize_plane_def reduce_min_def reduce_max_def)
  have k3: "py_int (real_of_int 2 * 0.5 + 1 / 4 * real_of_int 2 * 0.5) = 1"
    by (simp add: py_int_def)
  have k4: "py_int (1 / 5 * real_of_int 2 * 0.5) = 0"
    by (simp add: py_int_def)
  from displacement_zero_result [OF g _ _ nd, where ra = "1 / 2" and rb = "1 / 3" and rc = "1 / 4"
      and rd = "1 / 5" and channels = 1]
  obtain o1 o2 where
    o1: "reindex ?G (2, 2, 1) 0 = Inr o1"
      "\<forall>y<nat 2. \<forall>x<nat 2. o1 ! y ! x =
          (if value_map ?G (2, 2, 1) ! y ! x = 1 \<and> (2::int) \<le> min 2 2 then ?G ! 1 ! 1 else ?G ! 0 ! 0)"
    and o2: "refract (1 / 2) (1 / 3) (1 / 4) (1 / 5) ?G (2, 2, 1) 0 = Inr o2"
      "\<forall>y<nat 2. \<forall>x<nat 2. o2 ! y ! x =
          ?G ! nat ((int y + py_int (real_of_int 2 * 0.5 + 1 / 4 * real_of_int 2 * 0.5)) mod 2)
             ! nat ((int x + py_int (1 / 5 * real_of_int 2 * 0.5)) mod 2)"
    by auto
  have "o1 ! 0 ! 1 = [0]" "o1 ! 1 ! 1 = [3]"
    using o1(2) [rule_format, of 0 1] o1(2) [rule_format, of 1 1] by (simp_all add: vm)
  moreover have "o2 ! 0 ! 0 = [2]" "o2 ! 1 ! 1 = [1]"
    using o2(2) [rule_format, of 0 0] o2(2) [rule_format, of 1 1] unfolding k3 k4 by simp_all
  ultimately show ?thesis
    using g nd o1(1) o2(1) by blast
qed

text \<open>
  C1 as stated fails: on the 2 by 2 grid with values 0, 1, 2, 3 and \<^verbatim>\<open>displacement=0\<close>,
  \<^verbatim>\<open>reindex\<close> returns the grid 0, 0, 0, 3 and \<^verbatim>\<open>refract\<close> returns the grid with its two rows
  exchanged.
\<close>

theorem displacement_zero_counterexample:
  "reindex [[[0], [1]], [[2], [3]]] (2, 2, 1) 0 = Inr [[[0], [0]], [[0], [3]]]
   \<and> reindex [[[0], [1]], [[2], [3]]] (2, 2, 1) 0 \<noteq> Inr [[[0], [1]], [[2], [3]]]
   \<and> refract (1 / 2) (1 / 3) (1 / 4) (1 / 5) [[[0], [1]], [[2], [3]]] (2, 2, 1) 0 = Inr [[[2], [3]], [[0], [1]]]
   \<and> refract (1 / 2) (1 / 3) (1 / 4) (1 / 5) [[[0], [1]], [[2], [3]]] (2, 2, 1) 0 \<noteq> Inr [[[0], [1]], [[2], [3]]]"
proof -
  have a: "reindex [[[0], [1]], [[2], [3]]] (2, 2, 1) 0 = Inr [[[0], [0]], [[0], [3]]]"
    by (simp add: reindex_def value_map_def normalize_plane_def reduce_min_def reduce_max_def
        py_int_def floormod_def stack2_def same_shape_def gather_nd_def in_bounds_def Let_def)
  have b: "refract (1 / 2) (1 / 3) (1 / 4) (1 / 5) [[[0], [1]], [[2], [3]]] (2, 2, 1) 0
      = Inr [[[2], [3]], [[0], [1]]]"
    by (simp add: refract_def value_map_def normalize_plane_def reduce_min_def reduce_max_def
        py_int_def floormod_def stack2_def same_shape_def gather_nd_def in_bounds_def Let_def
        row_index_def column_index_def offset_index_def add_index_def upt_rec numeral_2_eq_2)
  show ?thesis
    unfolding a b by simp
qed

subsection \<open>Bounds of the offset index (C10)\<close>

text \<open>
  C10. For positive \<^verbatim>\<open>height\<close> and \<^verbatim>\<open>width\<close> and any integer index tensors, every coordinate
  pair that \<^verbatim>\<open>offset_index\<close> produces lies in \<open>[0, height) \<times> [0, width)\<close>; \<^verbatim>\<open>offset_index\<close>
  does produce a result on index tensors of one shape; and \<^verbatim>\<open>refract\<close>, whose two gathers
  consume these pairs, never fails on a grid of the shape it is given: no gather indexes
  outside the grid. The integers are unbounded here; the pairs are residues modulo
  \<^verbatim>\<open>height\<close> and \<^verbatim>\<open>width\<close>, whatever 32-bit value the sum before the modulus has.
\<close>

theorem offset_index_within_bounds:
  fixes tensor :: grid and height width channels :: int
  assumes h: "0 < height" and w: "0 < width"
  shows "(\<forall>idx. offset_index ry rx y_index height x_index width = Inr idx \<longrightarrow>
            (\<forall>row \<in> set idx. \<forall>p \<in> set row. 0 \<le> fst p \<and> fst p < height \<and> 0 \<le> snd p \<and> snd p < width))
       \<and> (is_plane n k y_index \<and> is_plane n k x_index \<longrightarrow>
            (\<exists>idx. offset_index ry rx y_index height x_index width = Inr idx \<and> is_plane n k idx))
       \<and> (is_grid (nat height) (nat width) c tensor \<longrightarrow>
            (\<exists>out. refract ra rb rc rd tensor (height, width, channels) displacement = Inr out))"
proof (intro conjI)
  show "\<forall>idx. offset_index ry rx y_index height x_index width = Inr idx \<longrightarrow>
            (\<forall>row \<in> set idx. \<forall>p \<in> set row. 0 \<le> fst p \<and> fst p < height \<and> 0 \<le> snd p \<and> snd p < width)"
    using offset_index_entries [OF _ h w] by blast
next
  show "is_plane n k y_index \<and> is_plane n k x_index \<longrightarrow>
            (\<exists>idx. offset_index ry rx y_index height x_index width = Inr idx \<and> is_plane n k idx)"
    using offset_index_plane [OF _ _ h w] by blast
next
  show "is_grid (nat height) (nat width) c tensor \<longrightarrow>
            (\<exists>out. refract ra rb rc rd tensor (height, width, channels) displacement = Inr out)"
    using refract_entries [OF _ h w, where ra = ra and rb = rb and rc = rc and rd = rd
        and d = displacement and channels = channels]
    by blast
qed

theorem offset_index_within_bounds_witness:
  "(0::int) < 2
   \<and> offset_index (1 / 2) (1 / 4) [[0, 0], [1, 1]] 2 [[0, 1], [0, 1]] 2
       = Inr [[(1, 0), (1, 1)], [(0, 0), (0, 1)]]
   \<and> list_all (list_all (\<lambda>p. 0 \<le> fst p \<and> fst p < (2::int) \<and> 0 \<le> snd p \<and> snd p < (2::int)))
        [[(1, 0), (1, 1)], [(0, 0), (0, 1)]]
   \<and> is_plane 2 2 [[0, 0], [1, 1::int]] \<and> is_plane 2 2 [[0, 1], [0, 1::int]]
   \<and> is_grid (nat 2) (nat 2) 1 [[[0], [1]], [[2], [3::real]]]
   \<and> (\<exists>out. refract (1 / 2) (1 / 3) (1 / 4) (1 / 5) [[[0], [1]], [[2], [3]]] (2, 2, 1) (1 / 2) = Inr out)"
proof -
  have e: "offset_index (1 / 2) (1 / 4) [[0, 0], [1, 1]] 2 [[0, 1], [0, 1]] 2
       = Inr [[(1, 0), (1, 1)], [(0, 0), (0, 1)]]"
    by (simp add: offset_index_def stack2_def same_shape_def py_int_def)
  have p: "is_plane 2 2 [[0, 0], [1, 1::int]]" "is_plane 2 2 [[0, 1], [0, 1::int]]"
    by (simp_all add: is_plane_def)
  have g: "is_grid (nat 2) (nat 2) 1 [[[0], [1]], [[2], [3::real]]]"
    by (simp add: is_grid_def)
  have pos: "(0::int) < 2" by simp
  note t = offset_index_within_bounds [OF pos pos, where ry = "1 / 2" and rx = "1 / 4"
      and y_index = "[[0, 0], [1, 1]]" and x_index = "[[0, 1], [0, 1]]" and n = 2 and k = 2 and c = 1
      and tensor = "[[[0], [1]], [[2], [3]]]" and ra = "1 / 2" and rb = "1 / 3" and rc = "1 / 4"
      and rd = "1 / 5" and channels = 1 and displacement = "1 / 2"]
  from t e have "\<forall>row \<in> set [[(1, 0), (1, 1)], [(0, 0), (0, 1)]]. \<forall>p \<in> set row.
      0 \<le> fst p \<and> fst p < (2::int) \<and> 0 \<le> snd p \<and> snd p < (2::int)"
    by blast
  then have "list_all (list_all (\<lambda>p. 0 \<le> fst p \<and> fst p < (2::int) \<and> 0 \<le> snd p \<and> snd p < (2::int)))
        [[(1, 0), (1, 1)], [(0, 0), (0, 1)]]"
    by (simp add: list_all_iff)
  moreover from t g
  have "\<exists>out. refract (1 / 2) (1 / 3) (1 / 4) (1 / 5) [[[0], [1]], [[2], [3]]] (2, 2, 1) (1 / 2) = Inr out"
    by blast
  ultimately show ?thesis
    using e p g by simp
qed

subsection \<open>Shapes under tiling, cropping and convolution\<close>

lemma is_grid_map3 [simp]: "is_grid h w c (map (map (map f)) t) = is_grid h w c t"
  by (auto simp: is_grid_def)

lemma is_grid_normalize [simp]: "is_grid h w c (normalize_tensor t) = is_grid h w c t"
  by (simp add: normalize_tensor_def Let_def)

lemma is_grid_table:
  "is_grid h w c (map (\<lambda>y. map (\<lambda>x. map (f y x) [0..<c]) [0..<w]) [0..<h])"
  by (auto simp: is_grid_def)

lemma length_tile: "length (tile n xs) = n * length xs"
  by (induction n) (simp_all add: tile_def)

lemma set_tile: "set (tile n xs) \<subseteq> set xs"
  by (auto simp: tile_def)

lemma is_grid_tile3:
  assumes "is_grid h w c t"
  shows "is_grid (3 * h) (3 * w) c (tile3 t)"
proof -
  have len: "length (tile3 t) = 3 * h"
    using assms by (simp add: tile3_def length_tile is_grid_def)
  have rows: "length row = 3 * w \<and> (\<forall>px \<in> set row. length px = c)" if "row \<in> set (tile3 t)" for row
  proof -
    from that have "row \<in> set (map (tile 3) t)"
      using set_tile [of 3 "map (tile 3) t"] unfolding tile3_def by blast
    then obtain r where r: "r \<in> set t" "row = tile 3 r"
      by auto
    have "\<forall>px \<in> set row. px \<in> set r"
      using set_tile [of 3 r] r(2) by blast
    then show ?thesis
      using r assms by (simp add: length_tile is_grid_def)
  qed
  show ?thesis
    unfolding is_grid_def using len rows by blast
qed

lemma length_py_slice:
  "0 \<le> a \<Longrightarrow> length (py_slice a b xs) = slice_index b (length xs) - min (nat a) (length xs)"
  by (auto simp: py_slice_def slice_index_def Let_def)

lemma slice_index_le: "slice_index b n \<le> n"
  by (auto simp: slice_index_def)

lemma set_py_slice: "set (py_slice a b xs) \<subseteq> set xs"
  by (auto simp: py_slice_def Let_def dest: in_set_takeD in_set_dropD)

lemma is_grid_crop:
  assumes "is_grid h w c t" and "0 \<le> a" and "0 \<le> a'"
  shows "is_grid (slice_index b h - min (nat a) h) (slice_index b' w - min (nat a') w) c (crop t a b a' b')"
proof -
  have len: "length (crop t a b a' b') = slice_index b h - min (nat a) h"
    using assms by (simp add: crop_def length_py_slice is_grid_def)
  have rows: "length row = slice_index b' w - min (nat a') w \<and> (\<forall>px \<in> set row. length px = c)"
    if "row \<in> set (crop t a b a' b')" for row
  proof -
    from that obtain r where r: "r \<in> set (py_slice a b t)" "row = py_slice a' b' r"
      by (auto simp: crop_def)
    then have rt: "r \<in> set t"
      using set_py_slice [of a b t] by blast
    have "\<forall>px \<in> set row. px \<in> set r"
      using set_py_slice [of a' b' r] r(2) by blast
    then show ?thesis
      using r(2) rt assms by (simp add: length_py_slice is_grid_def)
  qed
  show ?thesis
    unfolding is_grid_def using len rows by blast
qed

lemma is_grid_hd: "is_grid h w c t \<Longrightarrow> 0 < h \<Longrightarrow> length (hd t) = w"
  by (cases t) (simp_all add: is_grid_def)

lemma is_grid_hd_hd: "is_grid h w c t \<Longrightarrow> 0 < h \<Longrightarrow> 0 < w \<Longrightarrow> length (hd (hd t)) = c"
  by (cases t; cases "hd t") (auto simp: is_grid_def)

lemma is_grid_channels: "is_grid h w c t \<Longrightarrow> list_all (list_all (\<lambda>px. length px = c)) t"
  by (simp add: is_grid_def list_all_iff)

lemma depthwise_conv2d_shape:
  assumes i: "is_grid ih iw c input" and f: "is_grid l l c weights"
    and l: "0 < l" "l \<le> ih" "l \<le> iw"
  shows "\<exists>out. depthwise_conv2d input weights = Inr out \<and> is_grid (ih - l + 1) (iw - l + 1) c out"
proof -
  have ne: "weights \<noteq> []" "input \<noteq> []"
    using i f l by (auto simp: is_grid_def)
  have d: "length weights = l" "length (hd weights) = l" "length (hd (hd weights)) = c"
      "length input = ih" "length (hd input) = iw"
    using i f l is_grid_hd [OF f] is_grid_hd_hd [OF f] is_grid_hd [OF i] by (simp_all add: is_grid_def)
  show ?thesis
    using ne l is_grid_channels [OF i]
    by (simp add: depthwise_conv2d_def Let_def d is_grid_table del: upt_Suc)
qed

lemma conform_kernel_shape:
  assumes "0 \<le> channels"
  shows "\<exists>kv. conform_kernel_to_tensor (kernel_value member) (height, width, channels) = Inr kv
     \<and> is_grid (kernel_len (kernel_value member)) (kernel_len (kernel_value member)) (nat channels) kv"
  using assms by (cases member) (simp_all add: conform_kernel_to_tensor_def is_grid_def)

lemma kernel_len_cases: "kernel_len (kernel_value member) = 3 \<or> kernel_len (kernel_value member) = 5"
  by (cases member) simp_all

lemma half_nonneg: "0 \<le> height \<Longrightarrow> py_int (real_of_int height / 2) = height div 2"
  by (simp add: py_int_def floor_divide_of_int_eq [where ?'a = real, symmetric])

lemma half_nat: "py_int (real n / 2) = int n div 2"
  using half_nonneg [of "int n"] by simp

lemma halo_shape:
  assumes g: "is_grid h w c t"
  shows "is_grid (2 * h) (2 * w) c
     (crop (tile3 t) (int h div 2) (int h * 2 + int h div 2) (int w div 2) (int w * 2 + int w div 2))"
proof -
  have a: "slice_index (int h * 2 + int h div 2) (3 * h) - min (nat (int h div 2)) (3 * h) = 2 * h"
    by (simp add: slice_index_def) linarith
  have b: "slice_index (int w * 2 + int w div 2) (3 * w) - min (nat (int w div 2)) (3 * w) = 2 * w"
    by (simp add: slice_index_def) linarith
  have "0 \<le> int h div 2" "0 \<le> int w div 2"
    by simp_all
  from is_grid_crop [OF is_grid_tile3 [OF g] this, of "int h * 2 + int h div 2" "int w * 2 + int w div 2"]
  show ?thesis
    unfolding a b .
qed

text \<open>The shape of the result of \<^verbatim>\<open>convolve\<close>, whenever the halo is at least as large as the kernel.\<close>

lemma convolve_shape:
  fixes height width channels :: int
  assumes g: "is_grid (nat height) (nat width) (nat channels) tensor"
    and pos: "0 < height" "0 < width" "0 \<le> channels"
    and l: "l = kernel_len (kernel_value member)" "l \<le> 2 * nat height" "l \<le> 2 * nat width"
  shows "\<exists>out. convolve member tensor (height, width, channels) = Inr out
     \<and> is_grid (slice_index (height + height div 2) (2 * nat height - l + 1) - min (nat (height div 2)) (2 * nat height - l + 1))
               (slice_index (width + width div 2) (2 * nat width - l + 1) - min (nat (width div 2)) (2 * nat width - l + 1))
               (nat channels) out"
proof -
  let ?h = "nat height" and ?w = "nat width" and ?c = "nat channels"
  obtain kv where kv: "conform_kernel_to_tensor (kernel_value member) (height, width, channels) = Inr kv"
      "is_grid l l ?c kv"
    using conform_kernel_shape [OF pos(3), of member height width] l(1) by blast
  have hh: "py_int (real_of_int height / 2) = height div 2" "py_int (real_of_int width / 2) = width div 2"
    using pos by (simp_all add: half_nonneg)
  define halo where "halo = crop (tile3 tensor) (height div 2) (height * 2 + height div 2)
      (width div 2) (width * 2 + width div 2)"
  have "is_grid (2 * ?h) (2 * ?w) ?c halo"
    using halo_shape [OF g] pos unfolding halo_def by simp
  moreover have "0 < l"
    using kernel_len_cases [of member] l(1) by auto
  ultimately obtain conv where conv: "depthwise_conv2d halo kv = Inr conv"
      "is_grid (2 * ?h - l + 1) (2 * ?w - l + 1) ?c conv"
    using depthwise_conv2d_shape [OF _ kv(2), of "2 * ?h" "2 * ?w" halo] l(2,3) by blast
  define centre where "centre = crop conv (height div 2) (height + height div 2) (width div 2) (width + width div 2)"
  have ce: "is_grid (slice_index (height + height div 2) (2 * ?h - l + 1) - min (nat (height div 2)) (2 * ?h - l + 1))
               (slice_index (width + width div 2) (2 * ?w - l + 1) - min (nat (width div 2)) (2 * ?w - l + 1))
               ?c centre"
    unfolding centre_def using conv(2) pos by (intro is_grid_crop) simp_all
  have "convolve member tensor (height, width, channels) =
      Inr (if (case member of edges \<Rightarrow> True | _ \<Rightarrow> False)
           then map (map (map (\<lambda>v. \<bar>v - 0.5\<bar> * 2))) (normalize_tensor centre) else normalize_tensor centre)"
    using kv(1) conv(1) by (simp add: convolve_def hh Let_def halo_def [symmetric] centre_def [symmetric])
  with ce show ?thesis
    by auto
qed

lemma resample_shape:
  fixes height width :: int
  assumes g: "is_grid ih iw c tensor" and i: "0 < ih" "0 < iw" and pos: "0 < height" "0 < width"
  shows "\<exists>out. resample interp tensor (height, width) spline_order = Inr out
     \<and> is_grid (nat height) (nat width) c out"
proof -
  have ne: "tensor \<noteq> []"
    using g i by (auto simp: is_grid_def)
  have iwd: "length (hd tensor) = iw" "length tensor = ih"
    using is_grid_hd [OF g i(1)] g by (simp_all add: is_grid_def)
  define halo where "halo = crop (tile3 tensor) (int ih div 2) (int ih * 2 + int ih div 2)
      (int iw div 2) (int iw * 2 + int iw div 2)"
  have hs: "is_grid (2 * ih) (2 * iw) c halo"
    using halo_shape [OF g] unfolding halo_def .
  then have hne: "halo \<noteq> []" "hd halo \<noteq> []" "length (hd (hd halo)) = c"
    using i is_grid_hd [OF hs] is_grid_hd_hd [OF hs] by (auto simp: is_grid_def)
  define chosen where "chosen = (if spline_order = 0 then NEAREST_NEIGHBOR
                             else if spline_order = 1 then BILINEAR else BICUBIC)"
  define resized where "resized = map (\<lambda>y. map (\<lambda>x. map (\<lambda>k.
               interp chosen halo (nat (height * 2), nat (width * 2)) y x k)
             [0..<c]) [0..<nat (width * 2)]) [0..<nat (height * 2)]"
  have rz: "resize_images interp halo (height * 2, width * 2) chosen = Inr resized"
    using hne pos by (simp add: resize_images_def resized_def)
  have rs: "is_grid (nat (height * 2)) (nat (width * 2)) c resized"
    unfolding resized_def by (rule is_grid_table)
  define out where "out = crop resized (height div 2) (height + height div 2) (width div 2) (width + width div 2)"
  have a: "slice_index (height + height div 2) (nat (height * 2)) - min (nat (height div 2)) (nat (height * 2)) = nat height"
    using pos by (simp add: slice_index_def) linarith
  have b: "slice_index (width + width div 2) (nat (width * 2)) - min (nat (width div 2)) (nat (width * 2)) = nat width"
    using pos by (simp add: slice_index_def) linarith
  have os: "is_grid (nat height) (nat width) c out"
    using is_grid_crop [OF rs, of "height div 2" "width div 2" "height + height div 2" "width + width div 2"] pos
    unfolding out_def a b by simp
  have hh: "py_int (real_of_int height / 2) = height div 2" "py_int (real_of_int width / 2) = width div 2"
      "py_int (real ih / 2) = int ih div 2" "py_int (real iw / 2) = int iw div 2"
    using pos by (simp_all add: half_nonneg half_nat)
  have "resample interp tensor (height, width) spline_order = Inr out"
    using rz ne
    by (simp add: resample_def Let_def iwd hh halo_def [symmetric] chosen_def [symmetric]
        out_def [symmetric] convert_image_dtype_def)
  with os show ?thesis
    by blast
qed

lemma centre_rows:
  fixes height :: int
  assumes "2 * int l - 3 \<le> height" and "3 \<le> l"
  shows "slice_index (height + height div 2) (2 * nat height - l + 1)
           - min (nat (height div 2)) (2 * nat height - l + 1) = nat height"
proof -
  have "0 \<le> height div 2" "height div 2 \<le> height" "height + height div 2 \<le> int (2 * nat height - l + 1)"
    using assms by linarith+
  then show ?thesis
    by (simp add: slice_index_def) linarith
qed

lemma is_grid_lengths: "is_grid h w c t \<Longrightarrow> map length t = replicate h w"
  by (auto simp: is_grid_def list_eq_iff_nth_eq)

subsection \<open>Output shapes of convolve and resample (C2)\<close>

text \<open>
  Where the shapes are kept: \<^verbatim>\<open>convolve\<close> returns a grid of exactly the input's shape for every input
  grid whose height and width are at least \<open>2 l - 3\<close>, where \<open>l\<close> is the size of the kernel:
  at least 3 for the kernels of size 3 and at least 7 for the kernels of size 5.
  \<^verbatim>\<open>resample\<close> returns a grid of exactly the requested height and width (and of the channels
  of the input) for every non-empty input grid and every requested shape with positive
  entries.
\<close>

lemma convolve_resample_shape:
  fixes height width channels new_height new_width :: int
  shows "(is_grid (nat height) (nat width) (nat channels) tensor \<and> 0 \<le> channels
            \<and> 2 * int (kernel_len (kernel_value member)) - 3 \<le> height
            \<and> 2 * int (kernel_len (kernel_value member)) - 3 \<le> width
          \<longrightarrow> (\<exists>out. convolve member tensor (height, width, channels) = Inr out
                 \<and> is_grid (nat height) (nat width) (nat channels) out))
       \<and> (is_grid ih iw c img \<and> 0 < ih \<and> 0 < iw \<and> 0 < new_height \<and> 0 < new_width
          \<longrightarrow> (\<exists>out. resample interp img (new_height, new_width) spline_order = Inr out
                 \<and> is_grid (nat new_height) (nat new_width) c out))"
proof (intro conjI impI)
  let ?l = "kernel_len (kernel_value member)"
  assume a: "is_grid (nat height) (nat width) (nat channels) tensor \<and> 0 \<le> channels
            \<and> 2 * int ?l - 3 \<le> height \<and> 2 * int ?l - 3 \<le> width"
  have l: "3 \<le> ?l"
    using kernel_len_cases [of member] by auto
  then have pos: "0 < height" "0 < width" and le: "?l \<le> 2 * nat height" "?l \<le> 2 * nat width"
    using a by linarith+
  from convolve_shape [OF _ pos _ refl le] a
  show "\<exists>out. convolve member tensor (height, width, channels) = Inr out
                 \<and> is_grid (nat height) (nat width) (nat channels) out"
    using centre_rows [OF _ l, of height] centre_rows [OF _ l, of width] by auto
next
  assume "is_grid ih iw c img \<and> 0 < ih \<and> 0 < iw \<and> 0 < new_height \<and> 0 < new_width"
  then show "\<exists>out. resample interp img (new_height, new_width) spline_order = Inr out
                 \<and> is_grid (nat new_height) (nat new_width) c out"
    using resample_shape [of ih iw c img new_height new_width interp spline_order] by blast
qed

lemma convolve_resample_shape_example:
  "is_grid (nat 3) (nat 3) (nat 1) [[[1], [2], [3]], [[4], [5], [6]], [[7], [8], [10::real]]]
   \<and> 2 * int (kernel_len (kernel_value emboss)) - 3 \<le> 3
   \<and> (\<exists>out. convolve emboss [[[1], [2], [3]], [[4], [5], [6]], [[7], [8], [10]]] (3, 3, 1) = Inr out
         \<and> is_grid (nat 3) (nat 3) (nat 1) out)
   \<and> is_grid 3 3 1 [[[1], [2], [3]], [[4], [5], [6]], [[7], [8], [10::real]]]
   \<and> (\<exists>out. resample nearest [[[1], [2], [3]], [[4], [5], [6]], [[7], [8], [10]]] (2, 5) 0 = Inr out
         \<and> is_grid (nat 2) (nat 5) 1 out)"
proof -
  let ?G = "[[[1], [2], [3]], [[4], [5], [6]], [[7], [8], [10::real]]]"
  have g: "is_grid (nat 3) (nat 3) (nat 1) ?G" "is_grid 3 3 1 ?G"
    by (simp_all add: is_grid_def)
  have k: "2 * int (kernel_len (kernel_value emboss)) - 3 \<le> 3"
    by simp
  note t = convolve_resample_shape [where height = 3 and width = 3 and channels = 1 and tensor = ?G
      and member = emboss and ih = 3 and iw = 3 and c = 1 and img = ?G and new_height = 2
      and new_width = 5 and interp = nearest and spline_order = 0]
  have "\<exists>out. convolve emboss ?G (3, 3, 1) = Inr out \<and> is_grid (nat 3) (nat 3) (nat 1) out"
    using t g(1) k by simp
  moreover have "\<exists>out. resample nearest ?G (2, 5) 0 = Inr out \<and> is_grid (nat 2) (nat 5) 1 out"
    using t g(2) by simp
  ultimately show ?thesis
    using g k by blast
qed

text \<open>
  C2, at an input where the code departs from it: with the kernel \<^verbatim>\<open>shadow\<close>, of size 5, a
  grid of 5 rows and 5 columns (no smaller than the kernel) comes back from \<^verbatim>\<open>convolve\<close> with
  4 rows of 4 pixels. The halo has 10 rows, the convolution leaves 6, and the crop
  \<^verbatim>\<open>[2:7]\<close> of those, meant to restore the 5 rows, finds only 4.
\<close>

theorem convolve_shadow_five_by_five:
  "map_sum id (map length)
     (convolve shadow
        [[[0], [1], [2], [3], [4]],
         [[1], [2], [3], [4], [5]],
         [[2], [3], [4], [5], [6]],
         [[3], [4], [5], [6], [7]],
         [[4], [5], [6], [7], [9]]] (5, 5, 1))
   = Inr [4, 4, 4, 4]"
proof -
  let ?G = "[[[0], [1], [2], [3], [4]],
         [[1], [2], [3], [4], [5]],
         [[2], [3], [4], [5], [6]],
         [[3], [4], [5], [6], [7]],
         [[4], [5], [6], [7], [9::real]]]"
  have g: "is_grid (nat 5) (nat 5) (nat 1) ?G"
    by (simp add: is_grid_def)
  have l: "(5::nat) = kernel_len (kernel_value shadow)"
    by simp
  have r: "slice_index (5 + 5 div 2) (2 * nat 5 - 5 + 1) - min (nat (5 div 2)) (2 * nat 5 - 5 + 1) = 4"
    by (simp add: slice_index_def)
  from convolve_shape [OF g _ _ _ l, unfolded r]
  obtain out where "convolve shadow ?G (5, 5, 1) = Inr out" "is_grid 4 4 (nat 1) out"
    by auto
  then show ?thesis
    using is_grid_lengths [of 4 4 "nat 1" out] by (simp add: numeral_eq_Suc)
qed

subsection \<open>The worm loop: shape of the canvas\<close>

lemma is_grid_nth:
  "is_grid h w c t \<longleftrightarrow>
     length t = h \<and> (\<forall>y<h. length (t ! y) = w \<and> (\<forall>x<w. length (t ! y ! x) = c))"
  by (auto simp: is_grid_def all_set_conv_all_nth)

lemma map2_map_same: "map2 h (map f xs) (map g xs) = map (\<lambda>x. h (f x) (g x)) xs"
  by (induction xs) simp_all

lemma add_grid_zeros:
  "add_grid (map (map (map f)) t) (map (map (map (\<lambda>v. 0))) t) = map (map (map f)) t"
  by (simp add: add_grid_def map2_map_same)

lemma is_grid_add_grid:
  assumes "is_grid h w c a" and "is_grid h w c b"
  shows "is_grid h w c (add_grid a b)"
  using assms by (simp add: is_grid_nth add_grid_def)

lemma add_at_shape:
  assumes g: "is_grid h w c acc" and u: "length u = c"
  shows "is_grid h w c (add_at acc (p, u))"
proof -
  define y x where "y = nat (fst p)" and "x = nat (snd p)"
  have eq: "add_at acc (p, u) = acc[y := (acc ! y)[x := map2 (\<lambda>a b. a + b) (acc ! y ! x) u]]"
    by (simp add: add_at_def y_def x_def Let_def)
  show ?thesis
  proof (cases "y < h \<and> x < w")
    case True
    then have "length (map2 (\<lambda>a b. a + b) (acc ! y ! x) u) = c"
      using g u by (simp add: is_grid_nth)
    then show ?thesis
      using g True unfolding eq by (auto simp: is_grid_nth nth_list_update)
  next
    case False
    have "acc[y := (acc ! y)[x := map2 (\<lambda>a b. a + b) (acc ! y ! x) u]] = acc"
    proof (cases "y < h")
      case True
      with False have "length (acc ! y) \<le> x"
        using g by (simp add: is_grid_nth)
      then have "(acc ! y)[x := map2 (\<lambda>a b. a + b) (acc ! y ! x) u] = acc ! y"
        by (rule list_update_beyond)
      then show ?thesis
        by (simp add: list_update_id)
    next
      case False
      then have "length acc \<le> y"
        using g by (simp add: is_grid_nth)
      then show ?thesis
        by (rule list_update_beyond)
    qed
    then show ?thesis
      using g unfolding eq by simp
  qed
qed

lemma foldl_add_at_shape:
  assumes "is_grid h w c acc" and "\<forall>pu \<in> set pus. length (snd pu) = c"
  shows "is_grid h w c (foldl add_at acc pus)"
  using assms
proof (induction pus arbitrary: acc)
  case Nil
  then show ?case by simp
next
  case (Cons pu pus)
  obtain p u where pu: "pu = (p, u)" by (cases pu)
  have "is_grid h w c (add_at acc pu)"
    unfolding pu using Cons.prems pu by (intro add_at_shape) simp_all
  then show ?case
    using Cons by simp
qed

lemma scatter_nd_shape:
  assumes "is_grid h w c tensor" and "\<forall>u \<in> set updates. length u = c"
    and "scatter_nd indices updates tensor = Inr s"
  shows "is_grid h w c s"
proof -
  have "s = foldl add_at (map (map (map (\<lambda>v. 0))) tensor) (zip indices updates)"
    using assms(3) by (simp add: scatter_nd_def split: if_splits)
  moreover have "\<forall>pu \<in> set (zip indices updates). length (snd pu) = c"
    using assms(2) by (auto dest: set_zip_rightD)
  ultimately show ?thesis
    using assms(1) by (simp add: foldl_add_at_shape)
qed

lemma gather_points_lengths:
  assumes "is_grid h w c tensor" and "gather_points tensor ps = Inr colors"
  shows "\<forall>u \<in> set colors. length u = c"
proof -
  have ib: "list_all (in_bounds tensor) ps" and col: "colors = map (\<lambda>p. tensor ! nat (fst p) ! nat (snd p)) ps"
    using assms(2) by (simp_all add: gather_points_def split: if_splits)
  have "length (tensor ! nat (fst p) ! nat (snd p)) = c" if "p \<in> set ps" for p
  proof -
    from ib that have b: "in_bounds tensor p" by (simp add: list_all_iff)
    then have y: "nat (fst p) < h" using assms(1) by (simp add: in_bounds_def is_grid_nth nat_less_iff)
    then have "length (tensor ! nat (fst p)) = w" using assms(1) by (simp add: is_grid_nth)
    with b have "nat (snd p) < w" by (simp add: in_bounds_def nat_less_iff)
    with y show ?thesis using assms(1) by (simp add: is_grid_nth)
  qed
  then show ?thesis by (simp add: col)
qed

text \<open>A step of the loop, when it succeeds, leaves the shape of the canvas as it is.\<close>

lemma worm_step_shape:
  assumes "is_grid h w c (env_tensor env)" and "\<forall>u \<in> set (env_colors env). length u = c"
    and "is_grid h w c (fst state)" and "worm_step env e state = Inr state'"
  shows "is_grid h w c (fst state')"
proof -
  obtain out wy wx where st: "state = (out, wy, wx)" by (cases state)
  let ?pos = "map (\<lambda>(y, x). (py_int y, py_int x)) (zip wy wx)"
  from assms(4) obtain s where s: "scatter_nd ?pos (map (map (\<lambda>v. v * e)) (env_colors env)) (env_tensor env) = Inr s"
    and out': "fst state' = add_grid out s"
    unfolding st worm_step_def
    by (cases "scatter_nd ?pos (map (map (\<lambda>v. v * e)) (env_colors env)) (env_tensor env)";
        cases "gather_points (env_index env) ?pos") (auto simp: Let_def)
  have "is_grid h w c s"
    using assms(1) _ s by (rule scatter_nd_shape) (use assms(2) in auto)
  then show ?thesis
    using assms(3) unfolding out' st by (simp add: is_grid_add_grid)
qed

lemma worm_loop_shape:
  assumes "is_grid h w c (env_tensor env)" and "\<forall>u \<in> set (env_colors env). length u = c"
    and "is_grid h w c (fst state)" and "worm_loop env es state = Inr state'"
  shows "is_grid h w c (fst state')"
  using assms(3,4)
proof (induction es arbitrary: state)
  case Nil
  then show ?case by simp
next
  case (Cons e es)
  from Cons.prems(2) obtain mid where mid: "worm_step env e state = Inr mid" "worm_loop env es mid = Inr state'"
    by (cases "worm_step env e state") simp_all
  from worm_step_shape [OF assms(1,2) Cons.prems(1) mid(1)] mid(2) show ?case
    by (rule Cons.IH)
qed

subsection \<open>The worm loop: positions stay on the grid\<close>

lemma position_in_bounds:
  assumes "is_plane (nat height) (nat width) params"
    and "0 \<le> y" "y < real_of_int height" "0 \<le> x" "x < real_of_int width"
  shows "in_bounds params (py_int y, py_int x)"
proof -
  have y: "0 \<le> py_int y" "py_int y < height"
    using assms(2,3) by (simp_all add: py_int_def floor_less_iff)
  have x: "0 \<le> py_int x" "py_int x < width"
    using assms(4,5) by (simp_all add: py_int_def floor_less_iff)
  have "nat (py_int y) < nat height"
    using y by simp
  then have "length (params ! nat (py_int y)) = nat width"
    using assms(1) by (simp add: is_plane_def)
  then show ?thesis
    using y x assms(1) by (simp add: in_bounds_def is_plane_def)
qed


lemma positions_in_bounds:
  assumes "is_plane (nat height) (nat width) params" and "inside wy height" and "inside wx width"
  shows "list_all (in_bounds params) (map (\<lambda>(y, x). (py_int y, py_int x)) (zip wy wx))"
proof -
  have "in_bounds params (py_int y, py_int x)" if "(y, x) \<in> set (zip wy wx)" for y x
  proof -
    from that have "y \<in> set wy" "x \<in> set wx"
      by (rule set_zip_leftD, rule set_zip_rightD)
    then show ?thesis
      using assms by (intro position_in_bounds) (auto simp: inside_def)
  qed
  then show ?thesis
    by (auto simp: list_all_iff)
qed

lemma inside_floormod:
  assumes "0 < bound"
  shows "inside (map2 (\<lambda>y d. floormod (y + d) (real_of_int bound)) ys ds) bound"
proof -
  have "0 \<le> floormod v (real_of_int bound) \<and> floormod v (real_of_int bound) < real_of_int bound" for v
    using floormod_range [of "real_of_int bound" v] assms by simp
  then show ?thesis
    by (auto simp: inside_def)
qed

lemma worm_step_total:
  assumes "is_plane (nat (env_height env)) (nat (env_width env)) (env_tensor env)"
    and "is_plane (nat (env_height env)) (nat (env_width env)) (env_index env)"
    and "0 < env_height env" and "0 < env_width env"
    and "inside (fst (snd state)) (env_height env)" and "inside (snd (snd state)) (env_width env)"
  shows "\<exists>state'. worm_step env e state = Inr state'
     \<and> inside (fst (snd state')) (env_height env) \<and> inside (snd (snd state')) (env_width env)"
proof -
  obtain out wy wx where st: "state = (out, wy, wx)" by (cases state)
  let ?pos = "map (\<lambda>(y, x). (py_int y, py_int x)) (zip wy wx)"
  have b1: "list_all (in_bounds (env_tensor env)) ?pos"
    using assms(1,5,6) unfolding st by (intro positions_in_bounds) simp_all
  have b2: "list_all (in_bounds (env_index env)) ?pos"
    using assms(2,5,6) unfolding st by (intro positions_in_bounds) simp_all
  show ?thesis
    unfolding st using b1 b2 inside_floormod [OF assms(3)] inside_floormod [OF assms(4)]
    by (simp add: worm_step_def scatter_nd_def gather_points_def Let_def)
qed

lemma worm_loop_total:
  assumes "is_plane (nat (env_height env)) (nat (env_width env)) (env_tensor env)"
    and "is_plane (nat (env_height env)) (nat (env_width env)) (env_index env)"
    and "0 < env_height env" and "0 < env_width env"
    and "inside (fst (snd state)) (env_height env)" and "inside (snd (snd state)) (env_width env)"
  shows "\<exists>state'. worm_loop env es state = Inr state'"
  using assms(5,6)
proof (induction es arbitrary: state)
  case Nil
  then show ?case by (simp del: split_paired_Ex)
next
  case (Cons e es)
  from worm_step_total [OF assms(1-4) Cons.prems, of e]
  obtain mid where mid: "worm_step env e state = Inr mid"
      "inside (fst (snd mid)) (env_height env)" "inside (snd (snd mid)) (env_width env)"
    by blast
  from Cons.IH [OF mid(2,3)] mid(1) show ?case
    by (simp del: split_paired_Ex)
qed

text \<open>With no agent, the loop leaves the dimmed background as it is.\<close>

lemma worm_loop_no_agents:
  "env_tensor env = tensor \<Longrightarrow>
   worm_loop env es (map (map (map f)) tensor, [], []) = Inr (map (map (map f)) tensor, [], [])"
  by (induction es) (simp_all add: worm_step_def scatter_nd_def gather_points_def add_grid_zeros)

subsection \<open>The whole of worms\<close>

lemma worm_count_nonneg:
  assumes "0 \<le> max width height" and "0 \<le> density"
  shows "0 \<le> worm_count width height density"
proof -
  have "0 \<le> real_of_int (max width height) * density"
    using assms by simp
  then show ?thesis
    by (simp add: worm_count_def py_int_def)
qed

lemma worm_count_zero: "worm_count width height 0 = 0"
  by (simp add: worm_count_def py_int_def)

lemma convert_behavior_cases:
  "convert_behavior behavior = Inl ValueError \<and> (\<exists>n. behavior = AsInt n \<and> n \<notin> {0, 1, 2, 3})
   \<or> (\<exists>member. convert_behavior behavior = Inr (AsMember member))
   \<or> convert_behavior behavior = Inr AsOther \<and> behavior = AsOther"
  by (cases behavior) (auto simp: convert_behavior_def WormBehavior_of_int_def)

lemma initial_inside:
  assumes "\<forall>k<n. 0 \<le> u k \<and> u k < 1" and "0 < bound"
  shows "inside (map (\<lambda>k. u k * real_of_int bound) [0..<n]) bound"
  using assms by (auto simp: inside_def)

text \<open>The steps of \<^verbatim>\<open>worms\<close> once its Python statements have passed.\<close>

lemma worms_unfold:
  assumes "0 \<le> worm_count width height density"
    and "convert_behavior behavior = Inr converted"
    and "0 \<le> min width height"
    and "exposures (iteration_count width height duration) = Inr es"
  shows "worms draws tensor (height, width, channels) behavior density duration stride stride_deviation bg =
     (let n = nat (worm_count width height density);
          worms_y = map (\<lambda>k. uniform_y draws k * real_of_int height) [0..<n];
          worms_x = map (\<lambda>k. uniform_x draws k * real_of_int width) [0..<n]
      in ebind (gather_points tensor (map (\<lambda>(y, x). (py_int y, py_int x)) (zip worms_y worms_x))) (\<lambda>colors.
         ebind (worm_loop
             \<lparr>env_tensor = tensor, env_colors = colors,
              env_index = map (map (\<lambda>v. v * 360 * (pi / 180))) (value_map tensor (height, width, channels)),
              env_rot = worms_rot converted draws n,
              env_stride = map (\<lambda>k. stride + stride_deviation * normal_stride draws k) [0..<n],
              env_height = height, env_width = width\<rparr>
             es (map (map (map (\<lambda>v. v * bg))) tensor, worms_y, worms_x)) (\<lambda>final.
         Inr (normalize_tensor (convert_image_dtype (fst final))))))"
  using assms by (simp add: worms_def Let_def min_less_iff_disj)


lemma worms_zero_division:
  assumes "0 \<le> worm_count width height density"
    and "convert_behavior behavior = Inr converted"
    and "0 \<le> min width height"
    and "iteration_count width height duration = 1"
  shows "worms draws tensor (height, width, channels) behavior density duration stride stride_deviation bg
     = Inl ZeroDivisionError"
  using assms by (simp add: worms_def Let_def exposures_def min_less_iff_disj)


lemma worms_density_zero:
  assumes "convert_behavior behavior = Inr converted"
    and "0 \<le> min width height"
    and "iteration_count width height duration \<noteq> 1"
  shows "worms draws tensor (height, width, channels) behavior 0 duration stride stride_deviation bg
     = Inr (normalize_tensor (convert_image_dtype (map (map (map (\<lambda>v. v * bg))) tensor)))"
proof -
  obtain es where es: "exposures (iteration_count width height duration) = Inr es"
    using assms(3) by (simp add: exposures_def)
  have c: "0 \<le> worm_count width height 0"
    by (simp add: worm_count_zero)
  show ?thesis
    unfolding worms_unfold [OF c assms(1,2) es]
    by (simp add: worm_count_zero gather_points_def worm_loop_no_agents)
qed

lemma worms_shape:
  assumes g: "is_grid h w c tensor"
    and r: "worms draws tensor (height, width, channels) behavior density duration stride stride_deviation bg = Inr out"
  shows "is_grid h w c out"
proof -
  have c: "0 \<le> worm_count width height density"
    using r by (cases "worm_count width height density < 0") (simp_all add: worms_def Let_def)
  obtain converted where b: "convert_behavior behavior = Inr converted"
    using r c by (cases "convert_behavior behavior") (simp_all add: worms_def Let_def)
  have "\<not> min width height < 0"
    using r c b by (cases "min width height < 0") (simp_all add: worms_def Let_def)
  then have m: "0 \<le> min width height"
    by linarith
  obtain es where es: "exposures (iteration_count width height duration) = Inr es"
    using r c b m by (cases "exposures (iteration_count width height duration)")
      (simp_all add: worms_def Let_def min_less_iff_disj)
  define n where "n = nat (worm_count width height density)"
  define wy where "wy = map (\<lambda>k. uniform_y draws k * real_of_int height) [0..<n]"
  define wx where "wx = map (\<lambda>k. uniform_x draws k * real_of_int width) [0..<n]"
  define pos where "pos = map (\<lambda>(y, x). (py_int y, py_int x)) (zip wy wx)"
  note u = r [unfolded worms_unfold [OF c b m es] Let_def, folded n_def, folded wy_def wx_def, folded pos_def]
  obtain colors where colors: "gather_points tensor pos = Inr colors"
    using u by (cases "gather_points tensor pos") simp_all
  define env where "env = \<lparr>env_tensor = tensor, env_colors = colors,
              env_index = map (map (\<lambda>v. v * 360 * (pi / 180))) (value_map tensor (height, width, channels)),
              env_rot = worms_rot converted draws n,
              env_stride = map (\<lambda>k. stride + stride_deviation * normal_stride draws k) [0..<n],
              env_height = height, env_width = width\<rparr>"
  obtain final where final: "worm_loop env es (map (map (map (\<lambda>v. v * bg))) tensor, wy, wx) = Inr final"
      and out: "out = normalize_tensor (convert_image_dtype (fst final))"
    using u colors unfolding env_def
    by (cases "worm_loop \<lparr>env_tensor = tensor, env_colors = colors,
              env_index = map (map (\<lambda>v. v * 360 * (pi / 180))) (value_map tensor (height, width, channels)),
              env_rot = worms_rot converted draws n,
              env_stride = map (\<lambda>k. stride + stride_deviation * normal_stride draws k) [0..<n],
              env_height = height, env_width = width\<rparr> es (map (map (map (\<lambda>v. v * bg))) tensor, wy, wx)") auto
  have "is_grid h w c (fst final)"
  proof (rule worm_loop_shape [OF _ _ _ final])
    show "is_grid h w c (env_tensor env)" using g by (simp add: env_def)
    show "\<forall>u \<in> set (env_colors env). length u = c"
      using gather_points_lengths [OF g colors] by (simp add: env_def)
    show "is_grid h w c (fst (map (map (map (\<lambda>v. v * bg))) tensor, wy, wx))" using g by simp
  qed
  then show ?thesis
    by (simp add: out convert_image_dtype_def)
qed

lemma worms_returns:
  assumes g: "is_grid (nat height) (nat width) c tensor" and pos: "0 < height" "0 < width"
    and d: "0 \<le> density"
    and uy: "\<forall>k. 0 \<le> uniform_y draws k \<and> uniform_y draws k < 1"
    and ux: "\<forall>k. 0 \<le> uniform_x draws k \<and> uniform_x draws k < 1"
    and b: "convert_behavior behavior = Inr converted"
    and it: "iteration_count width height duration \<noteq> 1"
  shows "\<exists>out. worms draws tensor (height, width, channels) behavior density duration stride stride_deviation bg = Inr out"
proof -
  have c: "0 \<le> worm_count width height density"
    using pos d by (intro worm_count_nonneg) simp_all
  have m: "0 \<le> min width height"
    using pos by simp
  obtain es where es: "exposures (iteration_count width height duration) = Inr es"
    using it by (simp add: exposures_def)
  define n where "n = nat (worm_count width height density)"
  define wy where "wy = map (\<lambda>k. uniform_y draws k * real_of_int height) [0..<n]"
  define wx where "wx = map (\<lambda>k. uniform_x draws k * real_of_int width) [0..<n]"
  define ps where "ps = map (\<lambda>(y, x). (py_int y, py_int x)) (zip wy wx)"
  have iy: "inside wy height" and ix: "inside wx width"
    unfolding wy_def wx_def using uy ux pos by (simp_all add: initial_inside)
  have tp: "is_plane (nat height) (nat width) tensor"
    using g by (rule is_grid_plane)
  have "list_all (in_bounds tensor) ps"
    unfolding ps_def using tp iy ix by (rule positions_in_bounds)
  then obtain colors where colors: "gather_points tensor ps = Inr colors"
    by (simp add: gather_points_def)
  define env where "env = \<lparr>env_tensor = tensor, env_colors = colors,
              env_index = map (map (\<lambda>v. v * 360 * (pi / 180))) (value_map tensor (height, width, channels)),
              env_rot = worms_rot converted draws n,
              env_stride = map (\<lambda>k. stride + stride_deviation * normal_stride draws k) [0..<n],
              env_height = height, env_width = width\<rparr>"
  have "\<exists>final. worm_loop env es (map (map (map (\<lambda>v. v * bg))) tensor, wy, wx) = Inr final"
  proof (rule worm_loop_total)
    show "is_plane (nat (env_height env)) (nat (env_width env)) (env_tensor env)"
      using tp by (simp add: env_def)
    show "is_plane (nat (env_height env)) (nat (env_width env)) (env_index env)"
      using is_plane_value_map [OF g] by (simp add: env_def)
    show "0 < env_height env" "0 < env_width env"
      using pos by (simp_all add: env_def)
    show "inside (fst (snd (map (map (map (\<lambda>v. v * bg))) tensor, wy, wx))) (env_height env)"
      using iy by (simp add: env_def)
    show "inside (snd (snd (map (map (map (\<lambda>v. v * bg))) tensor, wy, wx))) (env_width env)"
      using ix by (simp add: env_def)
  qed
  then obtain final where final: "worm_loop env es (map (map (map (\<lambda>v. v * bg))) tensor, wy, wx) = Inr final"
    by blast
  have "worms draws tensor (height, width, channels) behavior density duration stride stride_deviation bg
      = Inr (normalize_tensor (convert_image_dtype (fst final)))"
    unfolding worms_unfold [OF c b m es] Let_def n_def [symmetric] wy_def [symmetric] wx_def [symmetric]
      ps_def [symmetric] colors ebind_simps env_def [symmetric] final
    by (rule refl)
  then show ?thesis
    by blast
qed

subsection \<open>Unrecognized worm behavior (C7)\<close>





subsection \<open>The iteration count 1 (C9)\<close>





subsection \<open>Shape and background of the worms output (C8)\<close>

text \<open>
  Whenever \<^verbatim>\<open>worms\<close> returns, its output has the shape of the input grid; it returns on
  every grid of the given shape as soon as the iteration count is not 1; and with
  \<^verbatim>\<open>density=0\<close> and an iteration count other than 1 the output is the normalized product of
  the grid and \<^verbatim>\<open>bg\<close> (the saturating conversion leaves a float tensor as it is).
\<close>

lemma worms_output:
  fixes height width channels :: int
  shows "(is_grid h w c tensor
            \<and> worms draws tensor (height, width, channels) behavior density duration stride stride_deviation bg = Inr out
          \<longrightarrow> is_grid h w c out)
       \<and> (is_grid (nat height) (nat width) c tensor \<and> 0 < height \<and> 0 < width \<and> 0 \<le> density
            \<and> (\<forall>k. 0 \<le> uniform_y draws k \<and> uniform_y draws k < 1)
            \<and> (\<forall>k. 0 \<le> uniform_x draws k \<and> uniform_x draws k < 1)
            \<and> convert_behavior behavior = Inr converted
            \<and> iteration_count width height duration \<noteq> 1
          \<longrightarrow> (\<exists>res. worms draws tensor (height, width, channels) behavior density duration stride stride_deviation bg
                  = Inr res \<and> is_grid (nat height) (nat width) c res))
       \<and> (convert_behavior behavior = Inr converted \<and> 0 \<le> min width height
            \<and> iteration_count width height duration \<noteq> 1
          \<longrightarrow> worms draws tensor (height, width, channels) behavior 0 duration stride stride_deviation bg
                = Inr (normalize_tensor (convert_image_dtype (map (map (map (\<lambda>v. v * bg))) tensor)))
              \<and> convert_image_dtype (map (map (map (\<lambda>v. v * bg))) tensor) = map (map (map (\<lambda>v. v * bg))) tensor)"
proof (intro conjI impI)
  assume "is_grid h w c tensor
            \<and> worms draws tensor (height, width, channels) behavior density duration stride stride_deviation bg = Inr out"
  then show "is_grid h w c out"
    using worms_shape by blast
next
  assume a: "is_grid (nat height) (nat width) c tensor \<and> 0 < height \<and> 0 < width \<and> 0 \<le> density
            \<and> (\<forall>k. 0 \<le> uniform_y draws k \<and> uniform_y draws k < 1)
            \<and> (\<forall>k. 0 \<le> uniform_x draws k \<and> uniform_x draws k < 1)
            \<and> convert_behavior behavior = Inr converted
            \<and> iteration_count width height duration \<noteq> 1"
  then have "\<exists>res. worms draws tensor (height, width, channels) behavior density duration stride stride_deviation bg = Inr res"
    by (intro worms_returns [where c = c and converted = converted]) simp_all
  then show "\<exists>res. worms draws tensor (height, width, channels) behavior density duration stride stride_deviation bg
                  = Inr res \<and> is_grid (nat height) (nat width) c res"
    using a worms_shape by blast
next
  assume a: "convert_behavior behavior = Inr converted \<and> 0 \<le> min width height
            \<and> iteration_count width height duration \<noteq> 1"
  then show "worms draws tensor (height, width, channels) behavior 0 duration stride stride_deviation bg
                = Inr (normalize_tensor (convert_image_dtype (map (map (map (\<lambda>v. v * bg))) tensor)))"
    by (intro worms_density_zero [where converted = converted]) simp_all
  show "convert_image_dtype (map (map (map (\<lambda>v. v * bg))) tensor) = map (map (map (\<lambda>v. v * bg))) tensor"
    by (simp add: convert_image_dtype_def)
qed

text \<open>
  C8, at an input where the code departs from it: a grid of 4 rows and 4 columns with
  \<^verbatim>\<open>density=0\<close> and \<^verbatim>\<open>duration=0.5\<close>. The iteration count is \<^verbatim>\<open>int(sqrt(4) * 0.5) = 1\<close>, and
  \<^verbatim>\<open>worms\<close> raises \<^verbatim>\<open>ZeroDivisionError\<close> where the claim has the normalized background.
\<close>

theorem worms_density_zero_single_iteration:
  "worms \<lparr>uniform_y = \<lambda>k. 1 / 4, uniform_x = \<lambda>k. 1 / 2, normal_stride = \<lambda>k. 0, normal_rot = \<lambda>k. 0\<rparr>
     [[[0], [1], [2], [3]], [[4], [5], [6], [7]], [[8], [9], [10], [11]], [[12], [13], [14], [15]]]
     (4, 4, 1) (AsInt 0) 0 (1 / 2) 1 (1 / 20) (1 / 2) = Inl ZeroDivisionError"
proof -
  have "0 \<le> worm_count 4 4 0"
    by (simp add: worm_count_def py_int_def)
  moreover have "convert_behavior (AsInt 0) = Inr (AsMember obedient)"
    by (simp add: convert_behavior_def WormBehavior_of_int_def)
  moreover have "iteration_count 4 4 (1 / 2) = 1"
    by (simp add: iteration_count_def py_int_def)
  ultimately show ?thesis
    by (intro worms_zero_division [where converted = "AsMember obedient"]) simp_all
qed

subsection \<open>The pipeline as a run of stages\<close>

lemma ebind_Inr_right: "ebind m Inr = m"
  by (cases m) simp_all

lemma ebind_assoc: "ebind (ebind m f) g = ebind m (\<lambda>x. ebind (f x) g)"
  by (cases m) simp_all

lemma run_stages_append:
  "run_stages env shape opts (xs @ ys) tensor
   = ebind (run_stages env shape opts xs tensor) (run_stages env shape opts ys)"
  by (induction xs arbitrary: tensor) (simp_all add: ebind_def split: sum.splits)

lemma run_stages_Nil: "run_stages env shape opts [] = Inr"
  by (rule ext) simp

lemma run_stages_optional:
  "run_stages env shape opts (if b then [s] else []) tensor
   = (if b then run_stage env shape opts s tensor else Inr tensor)"
  by (simp add: ebind_Inr_right run_stages_Nil)

lemma run_stages_optional':
  "run_stages env shape opts (if b then [] else [s]) tensor
   = (if \<not> b then run_stage env shape opts s tensor else Inr tensor)"
  by (simp add: ebind_Inr_right run_stages_Nil)

lemma run_stages_choice:
  "run_stages env shape opts [if b then s else s'] tensor
   = (if b then run_stage env shape opts s tensor else run_stage env shape opts s' tensor)"
  by (simp add: ebind_Inr_right run_stages_Nil)

lemma post_process_run_stages:
  "post_process env tensor shape opts = run_stages env shape opts (selected_stages opts) tensor"
  unfolding selected_stages_def run_stages_append run_stages_optional run_stages_optional' run_stages_choice
    post_process_def
  by (simp cong: if_cong)

subsection \<open>Shapes that are not valid\<close>








subsection \<open>Order of the stages (C5)\<close>

text \<open>
  C5. \<^verbatim>\<open>post_process\<close> is the run, one after the other, of the stages that the options select
  from the fixed order refract, reindex, color map or plain normalization, worms,
  derivative, sobel, normal map. Refract and reindex are selected exactly when their
  range is not 0, the color map exactly when a \<^verbatim>\<open>clut\<close> is given (a file name that is not
  empty) and the plain normalization exactly when none is, and worms, derivative, sobel
  and normal map exactly when their option is set.
\<close>

theorem post_process_stage_order:
  "post_process env tensor shape opts = run_stages env shape opts (selected_stages opts) tensor
   \<and> sorted_wrt (\<lambda>a b. stage_rank a < stage_rank b) (selected_stages opts)
   \<and> map stage_rank [Refract, Reindex, ColorMap, Normalize, Worms, Derivative, Sobel, NormalMap]
       = [0, 1, 2, 2, 3, 4, 5, 6]
   \<and> (Refract \<in> set (selected_stages opts)) = (refract_range opts \<noteq> 0)
   \<and> (Reindex \<in> set (selected_stages opts)) = (reindex_range opts \<noteq> 0)
   \<and> (ColorMap \<in> set (selected_stages opts)) = truthy (clut opts)
   \<and> (Normalize \<in> set (selected_stages opts)) = (\<not> truthy (clut opts))
   \<and> (Worms \<in> set (selected_stages opts)) = with_worms opts
   \<and> (Derivative \<in> set (selected_stages opts)) = deriv opts
   \<and> (Sobel \<in> set (selected_stages opts)) = with_sobel opts
   \<and> (NormalMap \<in> set (selected_stages opts)) = with_normal_map opts"
proof (intro conjI)
  show "post_process env tensor shape opts = run_stages env shape opts (selected_stages opts) tensor"
    by (rule post_process_run_stages)
  show "sorted_wrt (\<lambda>a b. stage_rank a < stage_rank b) (selected_stages opts)"
    by (simp add: selected_stages_def stage_rank_def)
  show "map stage_rank [Refract, Reindex, ColorMap, Normalize, Worms, Derivative, Sobel, NormalMap]
       = [0, 1, 2, 2, 3, 4, 5, 6]"
    by (simp add: stage_rank_def)
qed (simp_all add: selected_stages_def)

subsection \<open>No validation of the shape (C6)\<close>




subsection \<open>The loop of the point cloud\<close>

lemma point_loop_drain:
  assumes "\<forall>t \<in> set (active_set st). cfg_generations cfg < snd (snd t)"
  shows "point_loop pick rnd cfg st = Some (Inr (Cloud (out_x st) (out_y st)))"
  using assms
proof (induction "length (active_set st)" arbitrary: st)
  case 0
  then show ?case
    by (subst point_loop.simps) simp
next
  case (Suc n)
  define k where "k = pick (active_set st) mod length (active_set st)"
  define popped where "popped = active_set st ! k"
  have ne: "active_set st \<noteq> []"
    using Suc.hyps(2) by auto
  then have "k < length (active_set st)"
    by (simp add: k_def)
  then have mem: "popped \<in> set (active_set st)"
    by (simp add: popped_def)
  then have gen: "\<not> snd (snd popped) \<le> cfg_generations cfg"
    using Suc.prems by auto
  define st' where "st' = st\<lparr>active_set := remove1 popped (active_set st)\<rparr>"
  have len: "n = length (active_set st')"
    using mem Suc.hyps(2) by (simp add: st'_def length_remove1)
  have all: "\<forall>t \<in> set (active_set st'). cfg_generations cfg < snd (snd t)"
    using Suc.prems by (auto simp: st'_def dest: notin_set_remove1)
  have "point_loop pick rnd cfg st = point_loop pick rnd cfg st'"
    using ne gen
    by (subst point_loop.simps)
      (simp add: Let_def k_def [symmetric] popped_def [symmetric] st'_def case_prod_beta)
  also have "\<dots> = Some (Inr (Cloud (out_x st') (out_y st')))"
    using len all by (rule Suc.hyps(1))
  finally show ?case
    by (simp add: st'_def)
qed

lemma upt_2: "[0..<2] = [0, 1]" "[0..<nat 2] = [0, 1]"
  by (simp_all add: upt_rec numeral_2_eq_2)

lemma square_grid_2:
  "square_grid index \<lparr>arg_freq = 2, arg_distrib = Some square, arg_center = True,
      arg_center_x = 0, arg_center_y = 0, arg_range_x = 2, arg_range_y = 2,
      arg_width = 4, arg_height = 4\<rparr>
   = Inr ([0, 0, 2, 2], [0, 2, 0, 2], index)"
  unfolding square_grid_def wrapped_def Let_def
  by (simp add: upt_2 floormod_def del: upt_Suc)

lemma waffle_grid_2:
  "square_grid index \<lparr>arg_freq = 2, arg_distrib = Some waffle, arg_center = True,
      arg_center_x = 0, arg_center_y = 0, arg_range_x = 2, arg_range_y = 2,
      arg_width = 4, arg_height = 4\<rparr>
   = Inr ([0, 2, 2], [2, 0, 2], index)"
  unfolding square_grid_def wrapped_def Let_def
  by (simp add: upt_2 floormod_def del: upt_Suc)


lemma point_cloud_square_2:
  "point_cloud pick rnd 2 (Member square) (Some (4, 4)) True 1
   = Some (Inr (Cloud [0, 0, 2, 2] [0, 2, 0, 2]))"
proof -
  define cfg where "cfg = \<lparr>cfg_freq = 2, cfg_distrib = Some square, cfg_center = True, cfg_snap = True,
      cfg_width = 4, cfg_height = 4, cfg_generations = 1\<rparr>"
  define st0 where "st0 = \<lparr>active_set = [(0, 0, 1)], seen = [Triple3 0 0 1],
      out_x = [], out_y = [], next_random = 0\<rparr>"
  define st1 where "st1 = \<lparr>active_set = [(2, 2, 2), (2, 0, 2), (0, 2, 2), (0, 0, 2)],
      seen = [Pair2 2 2, Pair2 2 0, Pair2 0 2, Pair2 0 0, Triple3 0 0 1],
      out_x = [0, 0, 2, 2], out_y = [0, 2, 0, 2], next_random = 0\<rparr>"
  have "point_cloud pick rnd 2 (Member square) (Some (4, 4)) True 1 = point_loop pick rnd cfg st0"
    by (simp add: point_cloud_def convert_distrib_def grid_member_def cfg_def st0_def)
  also have "\<dots> = point_loop pick rnd cfg st1"
    by (subst point_loop.simps)
      (simp add: cfg_def st0_def st1_def point_func_def grid_member_def square_grid_2 visit_def
        py_int_def List.insert_def)
  also have "\<dots> = Some (Inr (Cloud (out_x st1) (out_y st1)))"
    by (rule point_loop_drain) (simp add: cfg_def st1_def)
  finally show ?thesis
    by (simp add: st1_def)
qed

lemma point_cloud_waffle_2:
  "point_cloud pick rnd 2 (Member waffle) (Some (4, 4)) True 1
   = Some (Inr (Cloud [0, 2, 2] [2, 0, 2]))"
proof -
  define cfg where "cfg = \<lparr>cfg_freq = 2, cfg_distrib = Some waffle, cfg_center = True, cfg_snap = True,
      cfg_width = 4, cfg_height = 4, cfg_generations = 1\<rparr>"
  define st0 where "st0 = \<lparr>active_set = [(0, 0, 1)], seen = [Triple3 0 0 1],
      out_x = [], out_y = [], next_random = 0\<rparr>"
  define st1 where "st1 = \<lparr>active_set = [(2, 2, 2), (2, 0, 2), (0, 2, 2)],
      seen = [Pair2 2 2, Pair2 2 0, Pair2 0 2, Triple3 0 0 1],
      out_x = [0, 2, 2], out_y = [2, 0, 2], next_random = 0\<rparr>"
  have "point_cloud pick rnd 2 (Member waffle) (Some (4, 4)) True 1 = point_loop pick rnd cfg st0"
    by (simp add: point_cloud_def convert_distrib_def grid_member_def cfg_def st0_def)
  also have "\<dots> = point_loop pick rnd cfg st1"
    by (subst point_loop.simps)
      (simp add: cfg_def st0_def st1_def point_func_def grid_member_def waffle_grid_2 visit_def
        py_int_def List.insert_def)
  also have "\<dots> = Some (Inr (Cloud (out_x st1) (out_y st1)))"
    by (rule point_loop_drain) (simp add: cfg_def st1_def)
  finally show ?thesis
    by (simp add: st1_def)
qed

subsection \<open>The lattice of the point cloud (C3)\<close>

text \<open>
  C3. With \<^verbatim>\<open>freq=2\<close>, \<^verbatim>\<open>generations=1\<close> and the pixel shape 4 by 4, whatever member the pops
  of the frontier take, \<^verbatim>\<open>point_cloud\<close> returns for \<^verbatim>\<open>square\<close> exactly the 4 points
  \<open>(0,0)\<close>, \<open>(0,2)\<close>, \<open>(2,0)\<close>, \<open>(2,2)\<close>, the lattice of the points \<open>(2a, 2b)\<close> for the grid
  indices \<open>a\<close> and \<open>b\<close> in \<open>{0, 1}\<close>, and for \<^verbatim>\<open>waffle\<close> exactly the 3 of them with an odd
  grid index.
\<close>

theorem point_cloud_square_waffle:
  "point_cloud pick rnd 2 (Member square) (Some (4, 4)) True 1 = Some (Inr (Cloud [0, 0, 2, 2] [0, 2, 0, 2]))
   \<and> cloud_points (Cloud [0, 0, 2, 2] [0, 2, 0, 2]) = [(0, 0), (0, 2), (2, 0), (2, 2)]
   \<and> cloud_points (Cloud [0, 0, 2, 2] [0, 2, 0, 2]) = [(2 * real a, 2 * real b). a \<leftarrow> [0..<2], b \<leftarrow> [0..<2]]
   \<and> point_cloud pick rnd 2 (Member waffle) (Some (4, 4)) True 1 = Some (Inr (Cloud [0, 2, 2] [2, 0, 2]))
   \<and> cloud_points (Cloud [0, 2, 2] [2, 0, 2]) = [(0, 2), (2, 0), (2, 2)]
   \<and> cloud_points (Cloud [0, 2, 2] [2, 0, 2])
       = [(2 * real a, 2 * real b). a \<leftarrow> [0..<2], b \<leftarrow> [0..<2], a mod 2 = 1 \<or> b mod 2 = 1]"
proof (intro conjI)
  show "point_cloud pick rnd 2 (Member square) (Some (4, 4)) True 1 = Some (Inr (Cloud [0, 0, 2, 2] [0, 2, 0, 2]))"
    by (rule point_cloud_square_2)
  show "point_cloud pick rnd 2 (Member waffle) (Some (4, 4)) True 1 = Some (Inr (Cloud [0, 2, 2] [2, 0, 2]))"
    by (rule point_cloud_waffle_2)
qed (simp_all add: upt_2)

end
